theory Spec2Isabelle
  imports Complex_Main
begin

section \<open>JavaScript numbers\<close>

text \<open>
  The controllers compute with JavaScript numbers. A number is modelled as \<open>NaN\<close>, a
  finite value (a real: rounding of doubles and the sign of zero are left out), or an
  infinity (\<open>Infty True\<close> is \<open>+Infinity\<close>). The operations below are the ones the
  controllers use, with the IEEE results on \<open>NaN\<close> and the infinities.
\<close>

datatype jsnum = NaN | Fin real | Infty bool

fun js_add :: "jsnum \<Rightarrow> jsnum \<Rightarrow> jsnum" where
  "js_add (Fin a) (Fin b) = Fin (a + b)"
| "js_add (Fin a) (Infty s) = Infty s"
| "js_add (Infty s) (Fin b) = Infty s"
| "js_add (Infty s) (Infty t) = (if s = t then Infty s else NaN)"
| "js_add NaN y = NaN"
| "js_add x NaN = NaN"

fun js_neg :: "jsnum \<Rightarrow> jsnum" where
  "js_neg NaN = NaN"
| "js_neg (Fin a) = Fin (- a)"
| "js_neg (Infty s) = Infty (\<not> s)"

definition js_sub :: "jsnum \<Rightarrow> jsnum \<Rightarrow> jsnum" where
  "js_sub x y = js_add x (js_neg y)"

fun js_mul :: "jsnum \<Rightarrow> jsnum \<Rightarrow> jsnum" where
  "js_mul (Fin a) (Fin b) = Fin (a * b)"
| "js_mul (Fin a) (Infty s) = (if a = 0 then NaN else Infty (if 0 < a then s else \<not> s))"
| "js_mul (Infty s) (Fin b) = (if b = 0 then NaN else Infty (if 0 < b then s else \<not> s))"
| "js_mul (Infty s) (Infty t) = Infty (s = t)"
| "js_mul NaN y = NaN"
| "js_mul x NaN = NaN"

fun js_div100 :: "jsnum \<Rightarrow> jsnum" where
  \<comment> \<open>\<open>x / 100\<close>\<close>
  "js_div100 NaN = NaN"
| "js_div100 (Fin a) = Fin (a / 100)"
| "js_div100 (Infty s) = Infty s"

fun js_lt :: "jsnum \<Rightarrow> jsnum \<Rightarrow> bool" where
  "js_lt (Fin a) (Fin b) = (a < b)"
| "js_lt (Fin a) (Infty t) = t"
| "js_lt (Infty s) (Fin b) = (\<not> s)"
| "js_lt (Infty s) (Infty t) = (t \<and> \<not> s)"
| "js_lt NaN y = False"
| "js_lt x NaN = False"

definition js_gt :: "jsnum \<Rightarrow> jsnum \<Rightarrow> bool" where
  "js_gt x y = js_lt y x"

fun js_le :: "jsnum \<Rightarrow> jsnum \<Rightarrow> bool" where
  "js_le (Fin a) (Fin b) = (a \<le> b)"
| "js_le (Fin a) (Infty t) = t"
| "js_le (Infty s) (Fin b) = (\<not> s)"
| "js_le (Infty s) (Infty t) = (t \<or> \<not> s)"
| "js_le NaN y = False"
| "js_le x NaN = False"

fun truthy :: "jsnum \<Rightarrow> bool" where
  "truthy NaN = False"
| "truthy (Fin a) = (a \<noteq> 0)"
| "truthy (Infty s) = True"

definition or0 :: "jsnum \<Rightarrow> jsnum" where
  \<comment> \<open>\<open>x || 0\<close> on a number\<close>
  "or0 x = (if truthy x then x else Fin 0)"

fun js_round :: "jsnum \<Rightarrow> jsnum" where
  \<comment> \<open>\<open>Math.round\<close>: to the nearest integer, halves towards \<open>+Infinity\<close>\<close>
  "js_round NaN = NaN"
| "js_round (Fin a) = Fin (of_int \<lfloor>a + 1 / 2\<rfloor>)"
| "js_round (Infty s) = Infty s"

definition round2 :: "jsnum \<Rightarrow> jsnum" where
  \<comment> \<open>\<open>Math.round(amount * 100) / 100\<close>\<close>
  "round2 x = js_div100 (js_round (js_mul x (Fin 100)))"

definition js_index :: "'a list \<Rightarrow> int \<Rightarrow> 'a option" where
  \<comment> \<open>\<open>xs[i]\<close>: \<open>undefined\<close> (\<open>None\<close>) outside the array\<close>
  "js_index xs i = (if 0 \<le> i \<and> i < int (length xs) then Some (xs ! nat i) else None)"

definition parseFloat_stored :: "jsnum option \<Rightarrow> jsnum" where
  \<comment> \<open>\<open>parseFloat(v)\<close> of a stored number or \<open>undefined\<close>: a number prints and parses
      back to itself, \<open>undefined\<close> gives \<open>NaN\<close>\<close>
  "parseFloat_stored v = (case v of None \<Rightarrow> NaN | Some x \<Rightarrow> x)"

section \<open>Stored documents\<close>

text \<open>
  A user id or tournament id stands for a well-formed ObjectId; the short names used in
  the examples are such ids. A request with a malformed id is answered before any
  document is read and is left out.
\<close>

type_synonym uid = string
type_synonym tid = string

datatype status = Upcoming | Active | Completed | Cancelled

record additional_fixed =
  af_position :: jsnum
  af_amount :: jsnum

record fixed_prizes =
  amounts :: "jsnum list"
  fx_additional :: "additional_fixed list"

record additional_pct =
  ap_position :: jsnum
  ap_percentage :: jsnum

record percentage_prizes =
  pc_basePrizePool :: jsnum
  pc_ranks :: "(string \<times> jsnum) list"
  pc_additional :: "additional_pct list"

record special_prize =
  sp_category :: string
  sp_amount :: jsnum
  sp_isPercentage :: bool

record special_prizes =
  isFixed :: bool
  sx_basePrizePool :: jsnum
  specialPrizes :: "special_prize list"

text \<open>
  \<open>tournament.prizes\<close>: each of the three sub-objects may be missing (\<open>None\<close>);
  \<open>pc_ranks\<close> holds the keys \<open>'1st'\<close> .. \<open>'5th'\<close> of \<open>prizes.percentage\<close>.
\<close>

record prizes =
  fixed :: "fixed_prizes option"
  percentage :: "percentage_prizes option"
  special :: "special_prizes option"

record result =
  r_userId :: uid
  r_position :: real
  r_score :: real

record payout =
  po_userId :: uid
  po_position :: jsnum
  po_amount :: jsnum
  po_category :: "string option"

record tournament =
  title :: string
  organizer :: uid
  tstatus :: status
  participants :: "uid list"
  prizeType :: string
  tprizes :: prizes
  entryFee :: jsnum
  results :: "result list"
  prizesDistributed :: bool
  manualStatusOverride :: bool
  fiveMinuteReminderSent :: bool
  startInstant :: int
  duration :: int

section \<open>The payout calculator: \<open>calculatePrizeDistribution\<close>\<close>

datatype error = TypeError | PersistenceError

text \<open>
  The loop of the fixed branch, \<open>for (let i = 0; i < sortedResults.length && i < 5; i++)\<close>:
  \<open>parseFloat(amounts[i]) || 0\<close>, and a line only when the amount is positive.
\<close>

function fixedLoop :: "jsnum list \<Rightarrow> result list \<Rightarrow> nat \<Rightarrow> payout list \<Rightarrow> payout list" where
  "fixedLoop ams sortedResults i distribution =
     (if i < length sortedResults \<and> i < 5 then
        (let res = sortedResults ! i;
             amount = or0 (parseFloat_stored (js_index ams (int i)))
         in fixedLoop ams sortedResults (i + 1)
              (if js_gt amount (Fin 0)
               then distribution @ [\<lparr>po_userId = r_userId res, po_position = Fin (real (i + 1)),
                                      po_amount = amount, po_category = None\<rparr>]
               else distribution))
      else distribution)"
  by pat_completeness auto
termination
  by (relation "measure (\<lambda>(ams, sortedResults, i, distribution). 5 - i)") auto

text \<open>
  The additional prizes: \<open>sortedResults.find(r => r.position === additionalPrize.position)\<close>,
  and a line when a result was found and the amount is positive.
\<close>

fun fixedAdditional :: "additional_fixed list \<Rightarrow> result list \<Rightarrow> payout list \<Rightarrow> payout list" where
  "fixedAdditional [] sortedResults distribution = distribution"
| "fixedAdditional (additionalPrize # rest) sortedResults distribution =
     fixedAdditional rest sortedResults
       (case find (\<lambda>r. Fin (r_position r) = af_position additionalPrize) sortedResults of
          Some res \<Rightarrow>
            if js_gt (af_amount additionalPrize) (Fin 0)
            then distribution @ [\<lparr>po_userId = r_userId res, po_position = af_position additionalPrize,
                                   po_amount = af_amount additionalPrize, po_category = None\<rparr>]
            else distribution
        | None \<Rightarrow> distribution)"

definition positions :: "string list" where
  "positions = [''1st'', ''2nd'', ''3rd'', ''4th'', ''5th'']"

text \<open>
  The loop of the percentage branch, over the five labels:
  \<open>percentagePrizes[position] || 0\<close>, \<open>(basePrizePool * percentage) / 100\<close>, rounded to
  two decimals when a line is written.
\<close>

function percentageLoop :: "percentage_prizes \<Rightarrow> result list \<Rightarrow> nat \<Rightarrow> payout list \<Rightarrow> payout list" where
  "percentageLoop pp sortedResults i distribution =
     (if i < length sortedResults \<and> i < length positions then
        (let res = sortedResults ! i;
             pct = (case map_of (pc_ranks pp) (positions ! i) of None \<Rightarrow> Fin 0 | Some p \<Rightarrow> or0 p);
             amount = js_div100 (js_mul (pc_basePrizePool pp) pct)
         in percentageLoop pp sortedResults (i + 1)
              (if js_gt amount (Fin 0)
               then distribution @ [\<lparr>po_userId = r_userId res, po_position = Fin (real (i + 1)),
                                      po_amount = round2 amount, po_category = None\<rparr>]
               else distribution))
      else distribution)"
  by pat_completeness auto
termination
  by (relation "measure (\<lambda>(pp, sortedResults, i, distribution). length positions - i)") auto

text \<open>
  The special branch gives every special prize to \<open>sortedResults[0]\<close>; reading
  \<open>result.userId\<close> of a missing first result throws.
\<close>

fun specialLoop :: "special_prizes \<Rightarrow> special_prize list \<Rightarrow> result list \<Rightarrow> payout list
    \<Rightarrow> error + payout list" where
  "specialLoop sx [] sortedResults distribution = Inr distribution"
| "specialLoop sx (specialPrize # rest) sortedResults distribution =
     (let amount = (if sp_isPercentage specialPrize
                    then js_div100 (js_mul (sx_basePrizePool sx) (sp_amount specialPrize))
                    else sp_amount specialPrize)
      in if js_gt amount (Fin 0) then
           (case sortedResults of
              [] \<Rightarrow> Inl TypeError
            | res # others \<Rightarrow>
                specialLoop sx rest sortedResults
                  (distribution @ [\<lparr>po_userId = r_userId res, po_position = Fin 1,
                                     po_amount = round2 amount,
                                     po_category = Some (sp_category specialPrize)\<rparr>]))
         else specialLoop sx rest sortedResults distribution)"

definition calculatePrizeDistribution :: "tournament \<Rightarrow> result list \<Rightarrow> error + payout list" where
  "calculatePrizeDistribution t rs =
     (let sortedResults = sort_key r_position rs in
      if prizeType t = ''fixed'' then
        (let ams = (case fixed (tprizes t) of None \<Rightarrow> [] | Some f \<Rightarrow> amounts f);
             additional = (case fixed (tprizes t) of None \<Rightarrow> [] | Some f \<Rightarrow> fx_additional f)
         in Inr (fixedAdditional additional sortedResults (fixedLoop ams sortedResults 0 [])))
      else if prizeType t = ''percentage'' then
        (case percentage (tprizes t) of
           None \<Rightarrow> Inl TypeError
         | Some pp \<Rightarrow> Inr (percentageLoop pp sortedResults 0 []))
      else if prizeType t = ''special'' then
        (case special (tprizes t) of
           None \<Rightarrow> Inl TypeError
         | Some sx \<Rightarrow> specialLoop sx (specialPrizes sx) sortedResults [])
      else Inr [])"

section \<open>Request values and their coercions\<close>

text \<open>
  A value of the request body. An object is an association list (the first binding of a
  key counts); a missing property reads as \<open>JUndefined\<close>.
\<close>

datatype jsval =
    JUndefined
  | JNull
  | JBool bool
  | JNum real
  | JStr string
  | JArr "jsval list"
  | JObj "(string \<times> jsval) list"

fun js_truthy :: "jsval \<Rightarrow> bool" where
  "js_truthy JUndefined = False"
| "js_truthy JNull = False"
| "js_truthy (JBool b) = b"
| "js_truthy (JNum r) = (r \<noteq> 0)"
| "js_truthy (JStr s) = (s \<noteq> [])"
| "js_truthy (JArr xs) = True"
| "js_truthy (JObj kvs) = True"

fun js_prop :: "jsval \<Rightarrow> string \<Rightarrow> jsval option" where
  \<comment> \<open>\<open>v.key\<close> for the keys the controller reads; \<open>None\<close> is the TypeError of reading a
      property of \<open>null\<close> or \<open>undefined\<close>. None of these keys is a data property of a
      string, number, boolean or array.\<close>
  "js_prop JUndefined k = None"
| "js_prop JNull k = None"
| "js_prop (JObj kvs) k = Some (case map_of kvs k of None \<Rightarrow> JUndefined | Some v \<Rightarrow> v)"
| "js_prop v k = Some JUndefined"

fun typeof_object :: "jsval \<Rightarrow> bool" where
  \<comment> \<open>\<open>typeof v === "object"\<close>\<close>
  "typeof_object JNull = True"
| "typeof_object (JArr xs) = True"
| "typeof_object (JObj kvs) = True"
| "typeof_object v = False"

definition is_digit :: "char \<Rightarrow> bool" where
  "is_digit c = (48 \<le> (of_char c :: nat) \<and> (of_char c :: nat) \<le> 57)"

definition is_space :: "char \<Rightarrow> bool" where
  \<comment> \<open>the ASCII white space and line terminators\<close>
  "is_space c = ((of_char c :: nat) \<in> {9, 10, 11, 12, 13, 32})"

definition digitsValue :: "string \<Rightarrow> nat" where
  "digitsValue ds = foldl (\<lambda>n c. 10 * n + ((of_char c :: nat) - 48)) 0 ds"

definition hexDigit :: "char \<Rightarrow> nat option" where
  "hexDigit c =
     (let k = (of_char c :: nat) in
      if 48 \<le> k \<and> k \<le> 57 then Some (k - 48)
      else if 65 \<le> k \<and> k \<le> 70 then Some (k - 55)
      else if 97 \<le> k \<and> k \<le> 102 then Some (k - 87)
      else None)"

definition hexValue :: "string \<Rightarrow> nat" where
  "hexValue ds = foldl (\<lambda>n c. 16 * n + (case hexDigit c of None \<Rightarrow> 0 | Some d \<Rightarrow> d)) 0 ds"

definition splitSign :: "string \<Rightarrow> bool \<times> string" where
  \<comment> \<open>an optional sign: (negative, rest)\<close>
  "splitSign s =
     (case s of
        [] \<Rightarrow> (False, [])
      | c # cs \<Rightarrow> if c = CHR ''-'' then (True, cs) else if c = CHR ''+'' then (False, cs) else (False, s))"

definition parseExponent :: "string \<Rightarrow> int" where
  \<comment> \<open>the exponent part \<open>e[+-]digits\<close> at the head of the rest, 0 when there is none\<close>
  "parseExponent s =
     (case s of
        [] \<Rightarrow> 0
      | c # cs \<Rightarrow>
          if c = CHR ''e'' \<or> c = CHR ''E'' then
            (let (neg, r) = splitSign cs; ds = takeWhile is_digit r
             in if ds = [] then 0 else if neg then - int (digitsValue ds) else int (digitsValue ds))
          else 0)"

definition pow10 :: "int \<Rightarrow> real" where
  "pow10 e = (if 0 \<le> e then 10 ^ nat e else 1 / 10 ^ nat (- e))"

definition parseFloat_str :: "string \<Rightarrow> jsnum" where
  \<comment> \<open>\<open>parseFloat\<close> of a string: leading white space, then the longest prefix that is a
      decimal literal (sign, \<open>Infinity\<close> or digits with fraction and exponent)\<close>
  "parseFloat_str s =
     (let (neg, body) = splitSign (dropWhile is_space s) in
      if take 8 body = ''Infinity'' then Infty (\<not> neg)
      else
        (let intDigits = takeWhile is_digit body;
             afterInt = dropWhile is_digit body;
             hasDot = (afterInt \<noteq> [] \<and> hd afterInt = CHR ''.'');
             fracDigits = (if hasDot then takeWhile is_digit (tl afterInt) else []);
             afterFrac = (if hasDot then dropWhile is_digit (tl afterInt) else afterInt)
         in if intDigits = [] \<and> fracDigits = [] then NaN
            else
              (let mantissa = real (digitsValue intDigits)
                              + real (digitsValue fracDigits) / 10 ^ length fracDigits;
                   v = mantissa * pow10 (parseExponent afterFrac)
               in Fin (if neg then - v else v))))"

definition parseInt_str :: "string \<Rightarrow> jsnum" where
  \<comment> \<open>\<open>parseInt\<close> of a string with no radix given: white space, sign, an optional
      \<open>0x\<close> prefix, then the digits of the radix\<close>
  "parseInt_str s =
     (let (neg, body) = splitSign (dropWhile is_space s) in
      if take 2 body = ''0x'' \<or> take 2 body = ''0X'' then
        (let ds = takeWhile (\<lambda>c. hexDigit c \<noteq> None) (drop 2 body)
         in if ds = [] then NaN
            else Fin (if neg then - real (hexValue ds) else real (hexValue ds)))
      else
        (let ds = takeWhile is_digit body
         in if ds = [] then NaN
            else Fin (if neg then - real (digitsValue ds) else real (digitsValue ds))))"

text \<open>
  \<open>parseFloat(v)\<close> and \<open>parseInt(v)\<close> convert \<open>v\<close> to a string first. A number prints
  in decimal (the exponent notation of very large and very small numbers is left out:
  \<open>parseInt\<close> of a number is its integer part); \<open>null\<close>, \<open>undefined\<close>, booleans and
  objects print as text that is no number; an array prints its elements separated by
  commas, so only its first element is read.
\<close>

fun parseFloat :: "jsval \<Rightarrow> jsnum" where
  "parseFloat (JNum r) = Fin r"
| "parseFloat (JStr s) = parseFloat_str s"
| "parseFloat (JArr (JNum r # xs)) = Fin r"
| "parseFloat (JArr (JStr s # xs)) = parseFloat_str s"
| "parseFloat (JArr (JArr ys # xs)) = parseFloat (JArr ys)"
| "parseFloat v = NaN"

fun parseInt :: "jsval \<Rightarrow> jsnum" where
  "parseInt (JNum r) = Fin (of_int (if 0 \<le> r then \<lfloor>r\<rfloor> else \<lceil>r\<rceil>))"
| "parseInt (JStr s) = parseInt_str s"
| "parseInt (JArr (JNum r # xs)) = Fin (of_int (if 0 \<le> r then \<lfloor>r\<rfloor> else \<lceil>r\<rceil>))"
| "parseInt (JArr (JStr s # xs)) = parseInt_str s"
| "parseInt (JArr (JArr ys # xs)) = parseInt (JArr ys)"
| "parseInt v = NaN"

definition js_read :: "jsval \<Rightarrow> string \<Rightarrow> jsval" where
  \<comment> \<open>a property read on a value already known to be truthy, where no TypeError arises\<close>
  "js_read v k = (case js_prop v k of None \<Rightarrow> JUndefined | Some x \<Rightarrow> x)"

section \<open>Prize normalisation at creation (\<open>createTournament\<close>, lines 183-301)\<close>

record draft_special_prize =
  dsp_category :: jsval
  dsp_amount :: jsnum
  dsp_isPercentage :: bool

record draft_special =
  ds_isFixed :: bool
  ds_basePrizePool :: jsnum
  ds_specialPrizes :: "draft_special_prize list"

record draft_prizes =
  d_fixed :: "fixed_prizes option"
  d_percentage :: "percentage_prizes option"
  d_special :: "draft_special option"

definition guardedObject :: "jsval \<Rightarrow> string \<Rightarrow> jsval option" where
  \<comment> \<open>\<open>prizes && prizes.k && typeof prizes.k === "object"\<close>: the object when the test holds\<close>
  "guardedObject pz k =
     (if js_truthy pz then
        (case js_prop pz k of
           Some v \<Rightarrow> if js_truthy v \<and> typeof_object v then Some v else None
         | None \<Rightarrow> None)
      else None)"

definition coerceAmount :: "jsval \<Rightarrow> jsnum" where
  \<comment> \<open>\<open>parseFloat(a) || 0\<close>\<close>
  "coerceAmount a = or0 (parseFloat a)"

definition coerceIfSet :: "jsval \<Rightarrow> jsnum" where
  \<comment> \<open>\<open>if (v) field = parseFloat(v) || 0\<close> over the default 0\<close>
  "coerceIfSet v = (if js_truthy v then or0 (parseFloat v) else Fin 0)"

text \<open>
  \<open>labels.forEach\<close> over the legacy keys: a value is pushed only when
  \<open>typeof prizes.fixed[lbl] !== "undefined"\<close>.
\<close>

fun legacyAmounts :: "jsval \<Rightarrow> string list \<Rightarrow> jsnum list \<Rightarrow> jsnum list" where
  "legacyAmounts fx [] acc = acc"
| "legacyAmounts fx (lbl # rest) acc =
     legacyAmounts fx rest
       (if js_read fx lbl \<noteq> JUndefined then acc @ [coerceAmount (js_read fx lbl)] else acc)"

fun mapAdditionalFixed :: "jsval list \<Rightarrow> additional_fixed list option" where
  \<comment> \<open>\<open>additional.map(prize => ...)\<close>; \<open>None\<close> when an element is \<open>null\<close>\<close>
  "mapAdditionalFixed [] = Some []"
| "mapAdditionalFixed (prize # rest) =
     (case (js_prop prize ''position'', js_prop prize ''amount'') of
        (Some p, Some a) \<Rightarrow>
          (case mapAdditionalFixed rest of
             None \<Rightarrow> None
           | Some xs \<Rightarrow> Some (\<lparr>af_position = or0 (parseInt p), af_amount = or0 (parseFloat a)\<rparr> # xs))
      | other \<Rightarrow> None)"

fun mapAdditionalPct :: "jsval list \<Rightarrow> additional_pct list option" where
  "mapAdditionalPct [] = Some []"
| "mapAdditionalPct (prize # rest) =
     (case (js_prop prize ''position'', js_prop prize ''percentage'') of
        (Some p, Some a) \<Rightarrow>
          (case mapAdditionalPct rest of
             None \<Rightarrow> None
           | Some xs \<Rightarrow> Some (\<lparr>ap_position = or0 (parseInt p), ap_percentage = or0 (parseFloat a)\<rparr> # xs))
      | other \<Rightarrow> None)"

fun mapSpecialPrizes :: "jsval list \<Rightarrow> draft_special_prize list option" where
  "mapSpecialPrizes [] = Some []"
| "mapSpecialPrizes (prize # rest) =
     (case (js_prop prize ''category'', js_prop prize ''amount'', js_prop prize ''isPercentage'') of
        (Some c, Some a, Some ip) \<Rightarrow>
          (case mapSpecialPrizes rest of
             None \<Rightarrow> None
           | Some xs \<Rightarrow>
               Some (\<lparr>dsp_category = (if js_truthy c then c else JStr []),
                      dsp_amount = or0 (parseFloat a),
                      dsp_isPercentage = (ip = JBool True)\<rparr> # xs))
      | other \<Rightarrow> None)"

definition normalizeFixed :: "jsval \<Rightarrow> fixed_prizes option" where
  "normalizeFixed pz =
     (case guardedObject pz ''fixed'' of
        None \<Rightarrow> Some \<lparr>amounts = [], fx_additional = []\<rparr>
      | Some fx \<Rightarrow>
          (let ams = (case js_read fx ''amounts'' of
                        JArr xs \<Rightarrow> map coerceAmount xs
                      | other \<Rightarrow> legacyAmounts fx positions [])
           in case js_read fx ''additional'' of
                JArr xs \<Rightarrow>
                  (case mapAdditionalFixed xs of
                     None \<Rightarrow> None
                   | Some ad \<Rightarrow> Some \<lparr>amounts = ams, fx_additional = ad\<rparr>)
              | other \<Rightarrow> Some \<lparr>amounts = ams, fx_additional = []\<rparr>))"

definition normalizePercentage :: "jsval \<Rightarrow> percentage_prizes option" where
  "normalizePercentage pz =
     (case guardedObject pz ''percentage'' of
        None \<Rightarrow> Some \<lparr>pc_basePrizePool = Fin 0, pc_ranks = map (\<lambda>lbl. (lbl, Fin 0)) positions,
                       pc_additional = []\<rparr>
      | Some pc \<Rightarrow>
          (let base = coerceIfSet (js_read pc ''basePrizePool'');
               ranks = map (\<lambda>lbl. (lbl, coerceIfSet (js_read pc lbl))) positions
           in case js_read pc ''additional'' of
                JArr xs \<Rightarrow>
                  (case mapAdditionalPct xs of
                     None \<Rightarrow> None
                   | Some ad \<Rightarrow> Some \<lparr>pc_basePrizePool = base, pc_ranks = ranks, pc_additional = ad\<rparr>)
              | other \<Rightarrow> Some \<lparr>pc_basePrizePool = base, pc_ranks = ranks, pc_additional = []\<rparr>))"

definition normalizeSpecial :: "jsval \<Rightarrow> draft_special option" where
  "normalizeSpecial pz =
     (case guardedObject pz ''special'' of
        None \<Rightarrow> Some \<lparr>ds_isFixed = True, ds_basePrizePool = Fin 0, ds_specialPrizes = []\<rparr>
      | Some sx \<Rightarrow>
          (let fixedFlag = (case js_read sx ''isFixed'' of JBool b \<Rightarrow> b | other \<Rightarrow> True);
               base = coerceIfSet (js_read sx ''basePrizePool'')
           in case js_read sx ''specialPrizes'' of
                JArr xs \<Rightarrow>
                  (case mapSpecialPrizes xs of
                     None \<Rightarrow> None
                   | Some sps \<Rightarrow>
                       Some \<lparr>ds_isFixed = fixedFlag, ds_basePrizePool = base, ds_specialPrizes = sps\<rparr>)
              | other \<Rightarrow>
                  Some \<lparr>ds_isFixed = fixedFlag, ds_basePrizePool = base, ds_specialPrizes = []\<rparr>))"

definition normalizePrizes :: "string \<Rightarrow> jsval \<Rightarrow> draft_prizes option" where
  \<comment> \<open>\<open>normalizedPrizes\<close>; \<open>None\<close> when the normalisation throws\<close>
  "normalizePrizes pt pz =
     (if pt = ''fixed'' then
        (case normalizeFixed pz of
           None \<Rightarrow> None
         | Some f \<Rightarrow> Some \<lparr>d_fixed = Some f, d_percentage = None, d_special = None\<rparr>)
      else if pt = ''percentage'' then
        (case normalizePercentage pz of
           None \<Rightarrow> None
         | Some pc \<Rightarrow> Some \<lparr>d_fixed = None, d_percentage = Some pc, d_special = None\<rparr>)
      else if pt = ''special'' then
        (case normalizeSpecial pz of
           None \<Rightarrow> None
         | Some sx \<Rightarrow> Some \<lparr>d_fixed = None, d_percentage = None, d_special = Some sx\<rparr>)
      else Some \<lparr>d_fixed = None, d_percentage = None, d_special = None\<rparr>)"

definition totalPrizePool :: "string \<Rightarrow> draft_prizes \<Rightarrow> jsnum" where
  \<comment> \<open>lines 308-336\<close>
  "totalPrizePool pt np =
     (if pt = ''fixed'' then
        (case d_fixed np of
           None \<Rightarrow> Fin 0
         | Some f \<Rightarrow>
             (let s = foldl (\<lambda>s v. js_add s (or0 v)) (Fin 0) (amounts f)
              in if fx_additional f \<noteq> []
                 then js_add s (foldl (\<lambda>sum prize. js_add sum (or0 (af_amount prize))) (Fin 0)
                                  (fx_additional f))
                 else s))
      else if pt = ''percentage'' then
        (case d_percentage np of None \<Rightarrow> Fin 0 | Some pc \<Rightarrow> or0 (pc_basePrizePool pc))
      else if pt = ''special'' then
        (case d_special np of
           None \<Rightarrow> Fin 0
         | Some sx \<Rightarrow>
             if ds_isFixed sx
             then foldl (\<lambda>sum prize. js_add sum (or0 (dsp_amount prize))) (Fin 0) (ds_specialPrizes sx)
             else or0 (ds_basePrizePool sx))
      else Fin 0)"

section \<open>The store\<close>

record user =
  walletBalance :: jsnum
  lichessUsername :: string
  createdTournaments :: "tid list"
  registeredTournaments :: "tid list"

record transaction =
  tx_user :: uid
  tx_tournament :: tid
  tx_type :: string
  tx_amount :: jsnum
  tx_status :: string

record notification =
  n_user :: uid
  n_type :: string
  n_related :: tid

text \<open>
  The collections the controllers read and write, the one-shot timers that are pending
  (fire instant in milliseconds, tournament), and the log of the five-minute reminders
  that went out (tournament, recipients).
\<close>

record store =
  users :: "uid \<Rightarrow> user option"
  tournaments :: "tid \<Rightarrow> tournament option"
  transactions :: "transaction list"
  notifications :: "notification list"
  timers :: "(int \<times> tid) list"
  reminders :: "(tid \<times> uid list) list"

section \<open>\<open>scheduleTournamentReminder\<close>\<close>

text \<open>
  The start instant is resolved from the date, the time string and the zone by the date
  library; it is a parameter here, \<open>None\<close> when the date-time is invalid (no timer is set
  then). The timer is set for five minutes before the start when that is still ahead.
\<close>

definition scheduleTournamentReminder :: "tid \<Rightarrow> int option \<Rightarrow> int \<Rightarrow> store \<Rightarrow> store" where
  "scheduleTournamentReminder tournamentId tournamentStart now s =
     (case tournamentStart of
        None \<Rightarrow> s
      | Some start \<Rightarrow>
          (let reminderTime = start - 5 * 60 * 1000;
               delay = reminderTime - now
           in if 0 < delay then s\<lparr>timers := timers s @ [(reminderTime, tournamentId)]\<rparr> else s))"

section \<open>\<open>createTournament\<close>\<close>

record draft =
  dr_prizeType :: string
  dr_prizes :: draft_prizes
  dr_entryFee :: jsnum
  dr_fundingMethod :: string
  dr_organizer :: uid

text \<open>
  The request as the handler reads it. \<open>rq_fieldsValid\<close> stands for the checks of lines
  45-181 (required fields, link and time format, zone, duration, date, banner upload),
  which return before any state is read or written.
\<close>

record create_request =
  rq_user :: uid
  rq_fieldsValid :: bool
  rq_prizeType :: string
  rq_prizes :: jsval
  rq_entryFee :: jsval
  rq_fundingMethod :: string

text \<open>
  What the handler cannot decide by itself: whether a write fails, what
  \<open>Tournament.create\<close> stores for a draft (the schema is not part of the controller;
  \<open>None\<close> is a validation or persistence error), the start instant the reminder is
  computed from, and the clock.
\<close>

record create_env =
  ce_userLookupFails :: bool
  ce_userSaveFails :: bool
  ce_tournamentCreate :: "draft \<Rightarrow> (tid \<times> tournament) option"
  ce_transactionCreateFails :: bool
  ce_userUpdateFails :: bool
  ce_reminderStart :: "int option"
  ce_now :: int

datatype create_response =
    Rejected400
  | Unexpected500
  | EntryFeeExceedsPool400
  | UserNotFound404
  | InsufficientBalance400 jsnum jsnum
  | WalletError500
  | RedirectToTopup200 jsnum
  | CreateError500
  | Created201 tid

definition fundTournament :: "create_env \<Rightarrow> create_request \<Rightarrow> jsnum \<Rightarrow> store
    \<Rightarrow> create_response + store" where
  \<comment> \<open>lines 363-396: \<open>Inl\<close> is an early return\<close>
  "fundTournament env req pool s =
     (if rq_fundingMethod req = ''wallet'' then
        (if ce_userLookupFails env then Inl WalletError500
         else case users s (rq_user req) of
           None \<Rightarrow> Inl UserNotFound404
         | Some u \<Rightarrow>
             if js_lt (walletBalance u) pool then Inl (InsufficientBalance400 (walletBalance u) pool)
             else if ce_userSaveFails env then Inl WalletError500
             else Inr (s\<lparr>users := (users s)(rq_user req \<mapsto>
                                 u\<lparr>walletBalance := js_sub (walletBalance u) pool\<rparr>)\<rparr>))
      else if rq_fundingMethod req = ''topup'' then Inl (RedirectToTopup200 pool)
      else Inr s)"

definition persistTournament :: "create_env \<Rightarrow> create_request \<Rightarrow> draft \<Rightarrow> jsnum \<Rightarrow> store
    \<Rightarrow> store \<times> create_response" where
  \<comment> \<open>lines 398-466\<close>
  "persistTournament env req d pool s =
     (case ce_tournamentCreate env d of
        None \<Rightarrow> (s, CreateError500)
      | Some (newId, t) \<Rightarrow>
          (let s1 = s\<lparr>tournaments := (tournaments s)(newId \<mapsto> t)\<rparr>;
               s2 = (if rq_fundingMethod req = ''wallet'' \<and> \<not> ce_transactionCreateFails env
                     then s1\<lparr>transactions := transactions s1 @
                            [\<lparr>tx_user = rq_user req, tx_tournament = newId,
                              tx_type = ''tournament_funding'', tx_amount = pool,
                              tx_status = ''completed''\<rparr>]\<rparr>
                     else s1)
           in if ce_userUpdateFails env then (s2, CreateError500)
              else
                (let s3 = (case users s2 (rq_user req) of
                             None \<Rightarrow> s2
                           | Some u \<Rightarrow>
                               s2\<lparr>users := (users s2)(rq_user req \<mapsto>
                                     u\<lparr>createdTournaments := createdTournaments u @ [newId]\<rparr>)\<rparr>)
                 in (scheduleTournamentReminder newId (ce_reminderStart env) (ce_now env) s3,
                     Created201 newId))))"

definition createTournament :: "create_env \<Rightarrow> create_request \<Rightarrow> store \<Rightarrow> store \<times> create_response" where
  "createTournament env req s =
     (if \<not> rq_fieldsValid req then (s, Rejected400)
      else
        (case normalizePrizes (rq_prizeType req) (rq_prizes req) of
           None \<Rightarrow> (s, Unexpected500)
         | Some normalizedPrizes \<Rightarrow>
             (let parsedEntryFee = or0 (parseFloat (rq_entryFee req));
                  pool = totalPrizePool (rq_prizeType req) normalizedPrizes
              in if js_gt parsedEntryFee pool then (s, EntryFeeExceedsPool400)
                 else
                   (case fundTournament env req pool s of
                      Inl r \<Rightarrow> (s, r)
                    | Inr s1 \<Rightarrow>
                        persistTournament env req
                          \<lparr>dr_prizeType = rq_prizeType req, dr_prizes = normalizedPrizes,
                           dr_entryFee = parsedEntryFee, dr_fundingMethod = rq_fundingMethod req,
                           dr_organizer = rq_user req\<rparr>
                          pool s1))))"

section \<open>Winner notifications (notification controller)\<close>

text \<open>
  What can happen inside \<open>createNotification\<close>: the insert of the notification throws;
  the insert succeeds and a later step (delivery, the final save) throws; or nothing
  throws. The insert runs outside any database session.
\<close>

datatype delivery = CreateFails | SaveFails | Delivered

definition createNotificationTry :: "delivery \<Rightarrow> uid \<Rightarrow> string \<Rightarrow> tid \<Rightarrow> store
    \<Rightarrow> store \<times> (error + notification)" where
  \<comment> \<open>the body of the \<open>try\<close> block of \<open>createNotification\<close>\<close>
  "createNotificationTry d userId ty relatedId s =
     (let n = \<lparr>n_user = userId, n_type = ty, n_related = relatedId\<rparr>;
          s' = s\<lparr>notifications := notifications s @ [n]\<rparr>
      in case d of
           CreateFails \<Rightarrow> (s, Inl PersistenceError)
         | SaveFails \<Rightarrow> (s', Inl PersistenceError)
         | Delivered \<Rightarrow> (s', Inr n))"

definition createNotification :: "delivery \<Rightarrow> uid \<Rightarrow> string \<Rightarrow> tid \<Rightarrow> store
    \<Rightarrow> store \<times> (error + notification option)" where
  \<comment> \<open>\<open>catch (error) { console.error(...); return null; }\<close>\<close>
  "createNotification d userId ty relatedId s =
     (case createNotificationTry d userId ty relatedId s of
        (s', Inl e) \<Rightarrow> (s', Inr None)
      | (s', Inr n) \<Rightarrow> (s', Inr (Some n)))"

definition notifyTournamentWinner :: "delivery \<Rightarrow> uid \<Rightarrow> tid \<Rightarrow> store
    \<Rightarrow> store \<times> (error + notification option)" where
  \<comment> \<open>\<open>try { return await createNotification(...) } catch (error) { return null }\<close>\<close>
  "notifyTournamentWinner d userId tournamentId s =
     (case createNotification d userId ''tournament_result'' tournamentId s of
        (s', Inl e) \<Rightarrow> (s', Inr None)
      | (s', Inr r) \<Rightarrow> (s', Inr r))"

section \<open>\<open>submitTournamentResults\<close>\<close>

record submit_request =
  sb_user :: uid
  sb_tournamentId :: tid
  sb_results :: "result list option"

datatype write_outcome = Written | CreditFails | LedgerFails

record submit_env =
  se_findFails :: bool
  se_write :: "nat \<Rightarrow> write_outcome"
  se_delivery :: "nat \<Rightarrow> delivery"
  se_saveFails :: bool

datatype submit_response =
    SubmitNotFound404
  | SubmitForbidden403
  | InvalidResults400
  | SubmitError500
  | Submitted200 "payout list"

text \<open>
  The loop over the computed prizes (lines 1005-1042): \<open>$inc\<close> of the wallet (no
  effect when the user does not exist), a \<open>tournament_prize\<close> ledger entry, then the
  notification inside its own \<open>try\<close>. No session: what was written before a throw stays.
\<close>

fun creditPrizes :: "submit_env \<Rightarrow> tid \<Rightarrow> nat \<Rightarrow> payout list \<Rightarrow> store \<Rightarrow> store \<times> (error + unit)" where
  "creditPrizes env tournamentId i [] s = (s, Inr ())"
| "creditPrizes env tournamentId i (prize # rest) s =
     (if js_gt (po_amount prize) (Fin 0) then
        (case se_write env i of
           CreditFails \<Rightarrow> (s, Inl PersistenceError)
         | outcome \<Rightarrow>
             (let s1 = (case users s (po_userId prize) of
                          None \<Rightarrow> s
                        | Some u \<Rightarrow>
                            s\<lparr>users := (users s)(po_userId prize \<mapsto>
                                 u\<lparr>walletBalance := js_add (walletBalance u) (po_amount prize)\<rparr>)\<rparr>)
              in if outcome = LedgerFails then (s1, Inl PersistenceError)
                 else
                   (let s2 = s1\<lparr>transactions := transactions s1 @
                                [\<lparr>tx_user = po_userId prize, tx_tournament = tournamentId,
                                  tx_type = ''tournament_prize'', tx_amount = po_amount prize,
                                  tx_status = ''completed''\<rparr>]\<rparr>;
                        s3 = fst (notifyTournamentWinner (se_delivery env i) (po_userId prize)
                                    tournamentId s2)
                    in creditPrizes env tournamentId (i + 1) rest s3)))
      else creditPrizes env tournamentId (i + 1) rest s)"

definition submitTournamentResults :: "submit_env \<Rightarrow> submit_request \<Rightarrow> store
    \<Rightarrow> store \<times> submit_response" where
  "submitTournamentResults env req s =
     (if se_findFails env then (s, SubmitError500)
      else case tournaments s (sb_tournamentId req) of
        None \<Rightarrow> (s, SubmitNotFound404)
      | Some t \<Rightarrow>
          if organizer t \<noteq> sb_user req then (s, SubmitForbidden403)
          else
            (case sb_results req of
               None \<Rightarrow> (s, InvalidResults400)
             | Some rs \<Rightarrow>
                 if rs = [] then (s, InvalidResults400)
                 else
                   (case calculatePrizeDistribution t rs of
                      Inl e \<Rightarrow> (s, SubmitError500)
                    | Inr prizeDistribution \<Rightarrow>
                        (case creditPrizes env (sb_tournamentId req) 0 prizeDistribution s of
                           (s1, Inl e) \<Rightarrow> (s1, SubmitError500)
                         | (s1, Inr u) \<Rightarrow>
                             if se_saveFails env then (s1, SubmitError500)
                             else
                               (s1\<lparr>tournaments := (tournaments s1)(sb_tournamentId req \<mapsto>
                                      t\<lparr>tstatus := Completed,
                                        results := sort_key r_position rs\<rparr>)\<rparr>,
                                Submitted200 prizeDistribution)))))"

section \<open>\<open>distributeTournamentPrizes\<close>\<close>

record prize_line =
  pd_userId :: uid
  pd_position :: string
  pd_customAmount :: "jsnum option"

record distribute_request =
  dq_user :: uid
  dq_tournamentId :: tid
  dq_prizeDistribution :: "prize_line list option"

record calculated_prize =
  cp_userId :: uid
  cp_position :: string
  cp_amount :: jsnum

record winner =
  w_userId :: uid
  w_position :: string
  w_amount :: jsnum
  w_newWalletBalance :: jsnum

text \<open>
  The environment of one call: whether the read of the tournament or the read of the
  ledger throws, whether an operation of the session fails for the i-th prize, what
  happens inside the i-th notification, and whether the final update of the tournament
  or the commit fails.
\<close>

record distribute_env =
  de_findTournamentFails :: bool
  de_findPayoutsFails :: bool
  de_writeFails :: "nat \<Rightarrow> bool"
  de_delivery :: "nat \<Rightarrow> delivery"
  de_commitFails :: bool

datatype distribute_response =
    NoDistributionData400
  | TournamentNotFound404
  | NotOrganizer403
  | NotCompleted400 status
  | AlreadyDistributed400
  | NotParticipants400 "uid list"
  | InvalidPrizeAmount400 uid string
  | DistributionError500
  | Distributed200 jsnum "winner list"

definition toLowerCase :: "string \<Rightarrow> string" where
  \<comment> \<open>on ASCII letters\<close>
  "toLowerCase s =
     map (\<lambda>c. if 65 \<le> (of_char c :: nat) \<and> (of_char c :: nat) \<le> 90
                then char_of ((of_char c :: nat) + 32) else c) s"

fun startsWith :: "string \<Rightarrow> string \<Rightarrow> bool" where
  "startsWith s [] = True"
| "startsWith [] (c # cs) = False"
| "startsWith (x # xs) (c # cs) = (x = c \<and> startsWith xs cs)"

fun includes_str :: "string \<Rightarrow> string \<Rightarrow> bool" where
  \<comment> \<open>\<open>s.includes(sub)\<close>\<close>
  "includes_str [] sub = (sub = [])"
| "includes_str (x # xs) sub = (startsWith (x # xs) sub \<or> includes_str xs sub)"

definition printsAs :: "jsnum \<Rightarrow> string \<Rightarrow> bool" where
  \<comment> \<open>\<open>n.toString() === ds\<close> for a string \<open>ds\<close> of decimal digits only: \<open>n\<close> is the
      natural number that \<open>ds\<close> writes without leading zeros\<close>
  "printsAs n ds =
     (ds \<noteq> [] \<and> (hd ds \<noteq> CHR ''0'' \<or> ds = ''0'') \<and> n = Fin (real (digitsValue ds)))"

definition fixedPrizeAmount :: "tournament \<Rightarrow> string \<Rightarrow> jsnum" where
  \<comment> \<open>lines 1488-1511\<close>
  "fixedPrizeAmount t position =
     (let digits = filter is_digit position in
      case fixed (tprizes t) of
        None \<Rightarrow> Fin 0
      | Some f \<Rightarrow>
          if digits \<noteq> [] then
            (let posNum = digitsValue digits;
                 arrAmount = or0 (parseFloat_stored (js_index (amounts f) (int posNum - 1)))
             in if js_gt arrAmount (Fin 0) then arrAmount
                else (case find (\<lambda>ap. af_position ap = Fin (real posNum)) (fx_additional f) of
                        None \<Rightarrow> Fin 0
                      | Some ap \<Rightarrow> af_amount ap))
          else (case find (\<lambda>ap. printsAs (af_position ap) digits) (fx_additional f) of
                  None \<Rightarrow> Fin 0
                | Some ap \<Rightarrow> af_amount ap))"

definition percentagePrizeAmount :: "tournament \<Rightarrow> string \<Rightarrow> error + jsnum" where
  \<comment> \<open>lines 1512-1526; of the properties of \<open>prizes.percentage\<close> only the rank keys are
      modelled, any other position reads as \<open>undefined\<close>\<close>
  "percentagePrizeAmount t position =
     (case percentage (tprizes t) of
        None \<Rightarrow> Inl TypeError
      | Some pc \<Rightarrow>
          (let basePrizePool = or0 (pc_basePrizePool pc);
               ranked = (case map_of (pc_ranks pc) position of None \<Rightarrow> NaN | Some p \<Rightarrow> p);
               pct = (if truthy ranked then ranked
                      else (case find (\<lambda>ap. printsAs (ap_position ap) (filter is_digit position))
                                   (pc_additional pc) of
                              None \<Rightarrow> Fin 0
                            | Some ap \<Rightarrow> ap_percentage ap))
           in Inr (js_div100 (js_mul basePrizePool pct))))"

definition specialPrizeAmount :: "tournament \<Rightarrow> string \<Rightarrow> error + jsnum" where
  \<comment> \<open>lines 1527-1544\<close>
  "specialPrizeAmount t position =
     (case special (tprizes t) of
        None \<Rightarrow> Inl TypeError
      | Some sx \<Rightarrow>
          (case find (\<lambda>sp. sp_category sp = position
                          \<or> includes_str (toLowerCase (sp_category sp)) (toLowerCase position))
                  (specialPrizes sx) of
             None \<Rightarrow> Inr (Fin 0)
           | Some sp \<Rightarrow>
               if isFixed sx \<or> \<not> sp_isPercentage sp then Inr (sp_amount sp)
               else Inr (js_div100 (js_mul (or0 (sx_basePrizePool sx)) (sp_amount sp)))))"

definition schedulePrizeAmount :: "tournament \<Rightarrow> string \<Rightarrow> error + jsnum" where
  \<comment> \<open>the amount the tournament's prize structure gives a position\<close>
  "schedulePrizeAmount t position =
     (if prizeType t = ''fixed'' then Inr (fixedPrizeAmount t position)
      else if prizeType t = ''percentage'' then percentagePrizeAmount t position
      else if prizeType t = ''special'' then specialPrizeAmount t position
      else Inr (Fin 0))"

definition applyCustomAmount :: "jsnum option \<Rightarrow> jsnum \<Rightarrow> jsnum" where
  \<comment> \<open>\<open>if (prize.customAmount && prize.customAmount > 0) prizeAmount = prize.customAmount\<close>\<close>
  "applyCustomAmount custom prizeAmount =
     (case custom of
        None \<Rightarrow> prizeAmount
      | Some c \<Rightarrow> if truthy c \<and> js_gt c (Fin 0) then c else prizeAmount)"

fun calculatePrizes :: "tournament \<Rightarrow> prize_line list \<Rightarrow> distribute_response + calculated_prize list" where
  \<comment> \<open>lines 1480-1566: \<open>Inl\<close> is the early return (400) or the throw (500)\<close>
  "calculatePrizes t [] = Inr []"
| "calculatePrizes t (prize # rest) =
     (case schedulePrizeAmount t (pd_position prize) of
        Inl e \<Rightarrow> Inl DistributionError500
      | Inr scheduled \<Rightarrow>
          (let prizeAmount = applyCustomAmount (pd_customAmount prize) scheduled
           in if js_le prizeAmount (Fin 0)
              then Inl (InvalidPrizeAmount400 (pd_userId prize) (pd_position prize))
              else (case calculatePrizes t rest of
                      Inl r \<Rightarrow> Inl r
                    | Inr cps \<Rightarrow>
                        Inr (\<lparr>cp_userId = pd_userId prize, cp_position = pd_position prize,
                              cp_amount = prizeAmount\<rparr> # cps))))"

text \<open>
  The loop inside the session (lines 1578-1634). A missing user or a failing write
  throws. The notification is awaited inside the same \<open>try\<close>: a throw from it would
  abort the session as well.
\<close>

fun payPrizes :: "distribute_env \<Rightarrow> tid \<Rightarrow> nat \<Rightarrow> calculated_prize list \<Rightarrow> store \<Rightarrow> winner list
    \<Rightarrow> store \<times> (error + winner list)" where
  "payPrizes env tournamentId i [] s ws = (s, Inr ws)"
| "payPrizes env tournamentId i (prize # rest) s ws =
     (case users s (cp_userId prize) of
        None \<Rightarrow> (s, Inl PersistenceError)
      | Some u \<Rightarrow>
          if de_writeFails env i then (s, Inl PersistenceError)
          else
            (let u' = u\<lparr>walletBalance := js_add (walletBalance u) (cp_amount prize)\<rparr>;
                 s1 = s\<lparr>users := (users s)(cp_userId prize \<mapsto> u'),
                        transactions := transactions s @
                          [\<lparr>tx_user = cp_userId prize, tx_tournament = tournamentId,
                            tx_type = ''prize_payout'', tx_amount = cp_amount prize,
                            tx_status = ''completed''\<rparr>]\<rparr>
             in case notifyTournamentWinner (de_delivery env i) (cp_userId prize) tournamentId s1 of
                  (s2, Inl e) \<Rightarrow> (s2, Inl e)
                | (s2, Inr n) \<Rightarrow>
                    payPrizes env tournamentId (i + 1) rest s2
                      (ws @ [\<lparr>w_userId = cp_userId prize, w_position = cp_position prize,
                               w_amount = cp_amount prize,
                               w_newWalletBalance = walletBalance u'\<rparr>])))"

definition existingPrizePayouts :: "store \<Rightarrow> tid \<Rightarrow> transaction list" where
  "existingPrizePayouts s tournamentId =
     filter (\<lambda>x. tx_tournament x = tournamentId \<and> tx_type x = ''prize_payout''
                  \<and> tx_status x = ''completed'') (transactions s)"

definition abortTransaction :: "store \<Rightarrow> store \<Rightarrow> store" where
  \<comment> \<open>the writes of the session are undone; the notifications were written outside it\<close>
  "abortTransaction s s' = s\<lparr>notifications := notifications s'\<rparr>"

definition runTransaction :: "distribute_env \<Rightarrow> tid \<Rightarrow> tournament \<Rightarrow> calculated_prize list \<Rightarrow> store
    \<Rightarrow> store \<times> distribute_response" where
  \<comment> \<open>lines 1571-1671: the session with the credits, the ledger entries and the
      \<open>metadata.prizesDistributed\<close> flag; any throw aborts it and answers 500\<close>
  "runTransaction env tournamentId t calculatedPrizes s =
     (case payPrizes env tournamentId 0 calculatedPrizes s [] of
        (s1, Inl e) \<Rightarrow> (abortTransaction s s1, DistributionError500)
      | (s1, Inr ws) \<Rightarrow>
          if de_commitFails env then (abortTransaction s s1, DistributionError500)
          else
            (s1\<lparr>tournaments := (tournaments s1)(tournamentId \<mapsto> t\<lparr>prizesDistributed := True\<rparr>)\<rparr>,
             Distributed200 (foldl js_add (Fin 0) (map cp_amount calculatedPrizes)) ws))"

definition distributeTournamentPrizes :: "distribute_env \<Rightarrow> distribute_request \<Rightarrow> store
    \<Rightarrow> store \<times> distribute_response" where
  "distributeTournamentPrizes env req s =
     (case dq_prizeDistribution req of
        None \<Rightarrow> (s, NoDistributionData400)
      | Some prizeDistribution \<Rightarrow>
          if prizeDistribution = [] then (s, NoDistributionData400)
          else if de_findTournamentFails env then (s, DistributionError500)
          else
            (case tournaments s (dq_tournamentId req) of
               None \<Rightarrow> (s, TournamentNotFound404)
             | Some t \<Rightarrow>
                 if users s (organizer t) = None then (s, DistributionError500)
                 else if organizer t \<noteq> dq_user req then (s, NotOrganizer403)
                 else if tstatus t \<noteq> Completed then (s, NotCompleted400 (tstatus t))
                 else if de_findPayoutsFails env then (s, DistributionError500)
                 else if existingPrizePayouts s (dq_tournamentId req) \<noteq> []
                   then (s, AlreadyDistributed400)
                 else
                   (let participantIds = filter (\<lambda>p. users s p \<noteq> None) (participants t);
                        invalidUsers = filter (\<lambda>prize. pd_userId prize \<notin> set participantIds)
                                         prizeDistribution
                    in if invalidUsers \<noteq> [] then (s, NotParticipants400 (map pd_userId invalidUsers))
                       else
                         (case calculatePrizes t prizeDistribution of
                            Inl r \<Rightarrow> (s, r)
                          | Inr calculatedPrizes \<Rightarrow>
                              runTransaction env (dq_tournamentId req) t calculatedPrizes s))))"

section \<open>The five-minute reminder\<close>

definition notifyTournamentStartingInFiveMinutes :: "delivery \<Rightarrow> tid \<Rightarrow> store \<Rightarrow> store \<times> uid list option" where
  \<comment> \<open>notification controller: nothing is sent for a missing tournament or one without
      participants; otherwise one notification per participant is inserted
      (\<open>createBulkNotifications\<close>). A throw is caught and gives \<open>null\<close>: before the insert
      (\<open>CreateFails\<close>) or after it (\<open>SaveFails\<close>). The populated participants are the ones
      whose user exists.\<close>
  "notifyTournamentStartingInFiveMinutes d tournamentId s =
     (case tournaments s tournamentId of
        None \<Rightarrow> (s, None)
      | Some t \<Rightarrow>
          (let participantIds = filter (\<lambda>p. users s p \<noteq> None) (participants t);
               s' = s\<lparr>notifications := notifications s @
                        map (\<lambda>p. \<lparr>n_user = p, n_type = ''tournament_reminder'',
                                   n_related = tournamentId\<rparr>) participantIds,
                      reminders := reminders s @ [(tournamentId, participantIds)]\<rparr>
           in if participantIds = [] then (s, None)
              else (case d of
                      CreateFails \<Rightarrow> (s, None)
                    | SaveFails \<Rightarrow> (s', None)
                    | Delivered \<Rightarrow> (s', Some participantIds))))"

definition fireReminderTimer :: "delivery \<Rightarrow> int \<times> tid \<Rightarrow> store \<Rightarrow> store" where
  \<comment> \<open>the callback of \<open>setTimeout\<close> (lines 1238-1247): it reads and writes no flag\<close>
  "fireReminderTimer d tm s =
     fst (notifyTournamentStartingInFiveMinutes d (snd tm) (s\<lparr>timers := remove1 tm (timers s)\<rparr>))"

definition isStartingWithinMinutes :: "tournament \<Rightarrow> int \<Rightarrow> int \<Rightarrow> bool" where
  \<comment> \<open>Modelled from the spec: \<open>isStartingWithinMinutes(tournamentSnapshot, now, minutes)\<close>
      of section 6, "starts within 5 minutes" (the method of the tournament model is not
      among the sources): the start is ahead and at most \<open>minutes\<close> away.\<close>
  "isStartingWithinMinutes t now minutes =
     (now < startInstant t \<and> startInstant t - now \<le> minutes * 60 * 1000)"

record reminder_env =
  rj_now :: int
  rj_findFails :: bool
  rj_ids :: "tid list"
  rj_delivery :: "tid \<Rightarrow> delivery"
  rj_updateFails :: "tid \<Rightarrow> bool"

definition findTournaments :: "tid list \<Rightarrow> (tournament \<Rightarrow> bool) \<Rightarrow> store \<Rightarrow> (tid \<times> tournament) list" where
  \<comment> \<open>\<open>Tournament.find(filter)\<close>: the documents that match, in the order \<open>ids\<close> of the query\<close>
  "findTournaments ids P s =
     concat (map (\<lambda>i. case tournaments s i of
                          None \<Rightarrow> []
                        | Some t \<Rightarrow> if P t then [(i, t)] else []) ids)"

definition setReminderSent :: "tid \<Rightarrow> store \<Rightarrow> store" where
  \<comment> \<open>\<open>findByIdAndUpdate(id, { $set: { fiveMinuteReminderSent: true } })\<close>\<close>
  "setReminderSent i s =
     (case tournaments s i of
        None \<Rightarrow> s
      | Some cur \<Rightarrow> s\<lparr>tournaments := (tournaments s)(i \<mapsto> cur\<lparr>fiveMinuteReminderSent := True\<rparr>)\<rparr>)"

fun reminderLoop :: "reminder_env \<Rightarrow> (tid \<times> tournament) list \<Rightarrow> store \<Rightarrow> store" where
  \<comment> \<open>lines 1286-1312\<close>
  "reminderLoop env [] s = s"
| "reminderLoop env ((i, t) # rest) s =
     reminderLoop env rest
       (if isStartingWithinMinutes t (rj_now env) 5 then
          (let s1 = fst (notifyTournamentStartingInFiveMinutes (rj_delivery env i) i s)
           in if rj_updateFails env i then s1 else setReminderSent i s1)
        else s)"

definition reminderCronJob :: "reminder_env \<Rightarrow> store \<Rightarrow> store" where
  \<comment> \<open>the job of every minute (lines 1267-1316); a failing query is logged and ends it\<close>
  "reminderCronJob env s =
     (if rj_findFails env then s
      else reminderLoop env
             (findTournaments (rj_ids env)
                (\<lambda>t. tstatus t = Upcoming \<and> fiveMinuteReminderSent t = False) s) s)"

section \<open>The status engine\<close>

definition computeStatus :: "tournament \<Rightarrow> int \<Rightarrow> status \<times> bool" where
  \<comment> \<open>Modelled from the spec: \<open>computeStatus(tournamentSnapshot, now) \<rightarrow> (status, changed)\<close>
      of sections 4.2 and 6 (the tournament model, with \<open>updateStatusBasedOnTime\<close>, is
      not among the sources). No transition under a manual override; upcoming goes to
      active from the start instant on, upcoming and active go to completed from the end
      instant on; completed and cancelled are left as they are.\<close>
  "computeStatus t now =
     (if manualStatusOverride t then (tstatus t, False)
      else
        (case tstatus t of
           Upcoming \<Rightarrow>
             if startInstant t + duration t \<le> now then (Completed, True)
             else if startInstant t \<le> now then (Active, True)
             else (Upcoming, False)
         | Active \<Rightarrow>
             if startInstant t + duration t \<le> now then (Completed, True) else (Active, False)
         | Completed \<Rightarrow> (Completed, False)
         | Cancelled \<Rightarrow> (Cancelled, False)))"

definition updateStatusBasedOnTime :: "tournament \<Rightarrow> int \<Rightarrow> tournament \<times> bool" where
  \<comment> \<open>Modelled from the spec: the method the controller calls on a loaded document; it
      sets the computed status and tells whether a write-back is needed.\<close>
  "updateStatusBasedOnTime t now =
     (case computeStatus t now of (st, changed) \<Rightarrow> (t\<lparr>tstatus := st\<rparr>, changed))"

definition saveStatus :: "tid \<Rightarrow> status \<Rightarrow> store \<Rightarrow> store" where
  \<comment> \<open>\<open>tournament.save()\<close> after a status change: the status is the modified path\<close>
  "saveStatus i st s =
     (case tournaments s i of
        None \<Rightarrow> s
      | Some cur \<Rightarrow> s\<lparr>tournaments := (tournaments s)(i \<mapsto> cur\<lparr>tstatus := st\<rparr>)\<rparr>)"

datatype read_response = ReadNotFound404 | ReadError500 | ReadOk200 tournament

record read_env =
  rd_now :: int
  rd_findFails :: bool
  rd_saveFails :: bool

definition getTournament :: "read_env \<Rightarrow> tid \<Rightarrow> store \<Rightarrow> store \<times> read_response" where
  \<comment> \<open>the lazy refresh of a read (lines 615-637); a throw is answered with 500\<close>
  "getTournament env i s =
     (if rd_findFails env then (s, ReadError500)
      else case tournaments s i of
        None \<Rightarrow> (s, ReadNotFound404)
      | Some t \<Rightarrow>
          (case updateStatusBasedOnTime t (rd_now env) of
             (t', wasUpdated) \<Rightarrow>
               if wasUpdated then
                 (if rd_saveFails env then (s, ReadError500)
                  else (saveStatus i (tstatus t') s, ReadOk200 t'))
               else (s, ReadOk200 t')))"

record status_env =
  sj_now :: int
  sj_findFails :: bool
  sj_ids :: "tid list"
  sj_saveFails :: "tid \<Rightarrow> bool"

definition needsStatusCheck :: "tournament \<Rightarrow> bool" where
  \<comment> \<open>\<open>{ status: { $in: ["upcoming", "active"] }, manualStatusOverride: { $ne: true } }\<close>\<close>
  "needsStatusCheck t =
     ((tstatus t = Upcoming \<or> tstatus t = Active) \<and> manualStatusOverride t \<noteq> True)"

fun statusLoop :: "status_env \<Rightarrow> (tid \<times> tournament) list \<Rightarrow> store \<Rightarrow> store" where
  \<comment> \<open>the loop of the job of every two minutes (lines 1341-1395): an error of one
      tournament is caught and the loop goes on\<close>
  "statusLoop env [] s = s"
| "statusLoop env ((i, t) # rest) s =
     statusLoop env rest
       (case updateStatusBasedOnTime t (sj_now env) of
          (t', wasUpdated) \<Rightarrow>
            if wasUpdated \<and> \<not> sj_saveFails env i then saveStatus i (tstatus t') s else s)"

definition statusCronJob :: "status_env \<Rightarrow> store \<Rightarrow> store" where
  \<comment> \<open>lines 1320-1403; a failing query is logged and ends the job\<close>
  "statusCronJob env s =
     (if sj_findFails env then s
      else statusLoop env (findTournaments (sj_ids env) needsStatusCheck s) s)"

fun updateAllLoop :: "status_env \<Rightarrow> (tid \<times> tournament) list \<Rightarrow> store \<Rightarrow> nat \<Rightarrow> store \<times> nat option" where
  \<comment> \<open>the loop of \<open>updateAllTournamentStatuses\<close> (lines 819-824): a failing save ends it\<close>
  "updateAllLoop env [] s updatedCount = (s, Some updatedCount)"
| "updateAllLoop env ((i, t) # rest) s updatedCount =
     (case updateStatusBasedOnTime t (sj_now env) of
        (t', wasUpdated) \<Rightarrow>
          if wasUpdated then
            (if sj_saveFails env i then (s, None)
             else updateAllLoop env rest (saveStatus i (tstatus t') s) (updatedCount + 1))
          else updateAllLoop env rest s updatedCount)"

definition updateAllTournamentStatuses :: "status_env \<Rightarrow> store \<Rightarrow> store \<times> nat option" where
  \<comment> \<open>lines 810-834: the count of updated tournaments, or nothing after a throw\<close>
  "updateAllTournamentStatuses env s =
     (if sj_findFails env then (s, None)
      else updateAllLoop env (findTournaments (sj_ids env) needsStatusCheck s) s 0)"

section \<open>\<open>registerForTournament\<close> and \<open>updateTournamentStatus\<close>\<close>

record register_request =
  rg_user :: uid
  rg_tournamentId :: tid
  rg_confirmed :: bool

text \<open>
  The handler runs outside any session and has no \<open>try\<close>: the first write that throws
  ends it with a 500, and what was written before stays.
\<close>

datatype register_failure =
    NothingFails | DebitSaveFails | EntryCreateFails | TournamentSaveFails | UserSaveFails

record register_env =
  re_findFails :: bool
  re_failure :: register_failure
  re_delivery :: delivery

datatype register_response =
    RegisterNotFound404
  | AlreadyRegistered400
  | LichessRequired400
  | InsufficientEntryBalance400
  | ConfirmationRequired400
  | RegisterError500
  | Registered200

definition notifyTournamentRegistration :: "delivery \<Rightarrow> uid \<Rightarrow> tid \<Rightarrow> store
    \<Rightarrow> store \<times> (error + notification option)" where
  \<comment> \<open>\<open>try { return await createNotification(...) } catch (error) { return null }\<close>\<close>
  "notifyTournamentRegistration d userId tournamentId s =
     (case createNotification d userId ''tournament_registration'' tournamentId s of
        (s', Inl e) \<Rightarrow> (s', Inr None)
      | (s', Inr r) \<Rightarrow> (s', Inr r))"

definition payEntryFee :: "register_env \<Rightarrow> register_request \<Rightarrow> tournament \<Rightarrow> user \<Rightarrow> store
    \<Rightarrow> (store \<times> register_response) + (store \<times> user)" where
  \<comment> \<open>lines 863-902: \<open>Inl\<close> is the early answer, \<open>Inr\<close> the store and the user document
      after the debit\<close>
  "payEntryFee env req t u s =
     (if js_gt (entryFee t) (Fin 0) then
        (if js_lt (walletBalance u) (entryFee t) then Inl (s, InsufficientEntryBalance400)
         else if \<not> rg_confirmed req then Inl (s, ConfirmationRequired400)
         else if re_failure env = DebitSaveFails then Inl (s, RegisterError500)
         else
           (let u1 = u\<lparr>walletBalance := js_sub (walletBalance u) (entryFee t)\<rparr>;
                s1 = s\<lparr>users := (users s)(rg_user req \<mapsto> u1)\<rparr>
            in if re_failure env = EntryCreateFails then Inl (s1, RegisterError500)
               else Inr (s1\<lparr>transactions := transactions s1 @
                              [\<lparr>tx_user = rg_user req, tx_tournament = rg_tournamentId req,
                                tx_type = ''tournament_entry'', tx_amount = entryFee t,
                                tx_status = ''completed''\<rparr>]\<rparr>, u1)))
      else Inr (s, u))"

definition registerForTournament :: "register_env \<Rightarrow> register_request \<Rightarrow> store
    \<Rightarrow> store \<times> register_response" where
  \<comment> \<open>lines 839-939; a missing user throws at \<open>user.lichessUsername\<close>\<close>
  "registerForTournament env req s =
     (if re_findFails env then (s, RegisterError500)
      else case tournaments s (rg_tournamentId req) of
        None \<Rightarrow> (s, RegisterNotFound404)
      | Some t \<Rightarrow>
          if rg_user req \<in> set (participants t) then (s, AlreadyRegistered400)
          else
            (case users s (rg_user req) of
               None \<Rightarrow> (s, RegisterError500)
             | Some u \<Rightarrow>
                 if lichessUsername u = [] then (s, LichessRequired400)
                 else
                   (case payEntryFee env req t u s of
                      Inl early \<Rightarrow> early
                    | Inr (s1, u1) \<Rightarrow>
                        if re_failure env = TournamentSaveFails then (s1, RegisterError500)
                        else
                          (let s2 = s1\<lparr>tournaments := (tournaments s1)(rg_tournamentId req \<mapsto>
                                          t\<lparr>participants := participants t @ [rg_user req]\<rparr>)\<rparr>
                           in if re_failure env = UserSaveFails then (s2, RegisterError500)
                              else
                                (let s3 = s2\<lparr>users := (users s2)(rg_user req \<mapsto>
                                            u1\<lparr>registeredTournaments :=
                                                 registeredTournaments u1 @ [rg_tournamentId req]\<rparr>)\<rparr>
                                 in (fst (notifyTournamentRegistration (re_delivery env)
                                            (rg_user req) (rg_tournamentId req) s3),
                                     Registered200))))))"

record status_request =
  us_user :: uid
  us_tournamentId :: tid
  us_status :: status

datatype status_response = StatusNotFound404 | StatusForbidden403 | StatusError500 | StatusUpdated200 status

definition updateTournamentStatus :: "bool \<Rightarrow> bool \<Rightarrow> status_request \<Rightarrow> store
    \<Rightarrow> store \<times> status_response" where
  \<comment> \<open>lines 944-968: the organizer sets the status by hand; only the status is written\<close>
  "updateTournamentStatus findFails saveFails req s =
     (if findFails then (s, StatusError500)
      else case tournaments s (us_tournamentId req) of
        None \<Rightarrow> (s, StatusNotFound404)
      | Some t \<Rightarrow>
          if organizer t \<noteq> us_user req then (s, StatusForbidden403)
          else if saveFails then (s, StatusError500)
          else (saveStatus (us_tournamentId req) (us_status req) s, StatusUpdated200 (us_status req)))"

section \<open>\<open>getTournaments\<close>\<close>

record list_env =
  ls_now :: int
  ls_findFails :: bool
  ls_ids :: "tid list"
  ls_saveFails :: "tid \<Rightarrow> bool"

fun refreshLoop :: "list_env \<Rightarrow> (tid \<times> tournament) list \<Rightarrow> store \<Rightarrow> tournament list
    \<Rightarrow> store \<times> tournament list option" where
  \<comment> \<open>the loop of lines 743-777: the lazy refresh of every tournament of the page; a
      failing save throws and the handler answers 500\<close>
  "refreshLoop env [] s processed = (s, Some processed)"
| "refreshLoop env ((i, t) # rest) s processed =
     (case updateStatusBasedOnTime t (ls_now env) of
        (t', wasUpdated) \<Rightarrow>
          if wasUpdated then
            (if ls_saveFails env i then (s, None)
             else refreshLoop env rest (saveStatus i (tstatus t') s) (processed @ [t']))
          else refreshLoop env rest s (processed @ [t']))"

definition getTournaments :: "list_env \<Rightarrow> store \<Rightarrow> store \<times> tournament list option" where
  \<comment> \<open>lines 678-807: \<open>ls_ids\<close> is the page the query returns; \<open>None\<close> is the answer 500\<close>
  "getTournaments env s =
     (if ls_findFails env then (s, None)
      else refreshLoop env (findTournaments (ls_ids env) (\<lambda>t. True) s) s [])"

section \<open>Runs and observations\<close>

text \<open>
  The part of the store a distribution is accountable for: everything but the
  notifications collection.
\<close>

definition ledgerOf :: "store \<Rightarrow> store" where
  "ledgerOf s = s\<lparr>notifications := []\<rparr>"

definition prizeEntry :: "tid \<Rightarrow> calculated_prize \<Rightarrow> transaction" where
  \<comment> \<open>the ledger entry of one calculated prize\<close>
  "prizeEntry tournamentId prize =
     \<lparr>tx_user = cp_userId prize, tx_tournament = tournamentId, tx_type = ''prize_payout'',
      tx_amount = cp_amount prize, tx_status = ''completed''\<rparr>"

definition creditsOf :: "uid \<Rightarrow> calculated_prize list \<Rightarrow> jsnum list" where
  \<comment> \<open>the amounts of the prizes of one user, in the order of the lines\<close>
  "creditsOf u cps = map cp_amount (filter (\<lambda>c. cp_userId c = u) cps)"

definition credited :: "uid \<Rightarrow> calculated_prize list \<Rightarrow> user option \<Rightarrow> user option" where
  \<comment> \<open>a user document after each of the user's prizes was added to the balance once\<close>
  "credited u cps =
     map_option (\<lambda>usr. usr\<lparr>walletBalance := foldl js_add (walletBalance usr) (creditsOf u cps)\<rparr>)"

text \<open>
  The operations of the controller as steps on the store, each with the environment of
  that call, and the number of successful answers of the distribution endpoint for one
  tournament along a sequence of operations.
\<close>

datatype operation =
    CreateTournament create_env create_request
  | SubmitResults submit_env submit_request
  | DistributePrizes distribute_env distribute_request
  | Register register_env register_request
  | SetStatus bool bool status_request
  | ReadTournament read_env tid
  | ListTournaments list_env
  | ReminderJob reminder_env
  | ReminderTimer delivery "int \<times> tid"
  | StatusJob status_env
  | UpdateAllStatuses status_env

fun perform :: "operation \<Rightarrow> store \<Rightarrow> store" where
  "perform (CreateTournament env req) s = fst (createTournament env req s)"
| "perform (SubmitResults env req) s = fst (submitTournamentResults env req s)"
| "perform (DistributePrizes env req) s = fst (distributeTournamentPrizes env req s)"
| "perform (Register env req) s = fst (registerForTournament env req s)"
| "perform (SetStatus findFails saveFails req) s = fst (updateTournamentStatus findFails saveFails req s)"
| "perform (ReadTournament env i) s = fst (getTournament env i s)"
| "perform (ListTournaments env) s = fst (getTournaments env s)"
| "perform (ReminderJob env) s = reminderCronJob env s"
| "perform (ReminderTimer d tm) s = fireReminderTimer d tm s"
| "perform (StatusJob env) s = statusCronJob env s"
| "perform (UpdateAllStatuses env) s = fst (updateAllTournamentStatuses env s)"





text \<open>Observations on a creation: the pool of a request and the answers after the debit.\<close>

fun isArray :: "jsval \<Rightarrow> bool" where
  \<comment> \<open>\<open>Array.isArray\<close>\<close>
  "isArray (JArr xs) = True"
| "isArray v = False"

definition poolOf :: "create_request \<Rightarrow> jsnum" where
  \<comment> \<open>the total prize pool the handler computes for a request\<close>
  "poolOf req =
     (case normalizePrizes (rq_prizeType req) (rq_prizes req) of
        None \<Rightarrow> Fin 0
      | Some np \<Rightarrow> totalPrizePool (rq_prizeType req) np)"

fun isCreated201 :: "create_response \<Rightarrow> bool" where
  "isCreated201 (Created201 i) = True"
| "isCreated201 r = False"

section \<open>Example data\<close>

definition emptyPrizes :: prizes where
  "emptyPrizes = \<lparr>fixed = None, percentage = None, special = None\<rparr>"

definition fixedTournament :: "jsnum list \<Rightarrow> tournament" where
  \<comment> \<open>a tournament of organizer \<open>org\<close> with fixed prizes, as stored after creation\<close>
  "fixedTournament ams =
     \<lparr>title = ''Open'', organizer = ''org'', tstatus = Upcoming, participants = [],
      prizeType = ''fixed'',
      tprizes = emptyPrizes\<lparr>fixed := Some \<lparr>amounts = ams, fx_additional = []\<rparr>\<rparr>,
      entryFee = Fin 0, results = [], prizesDistributed = False,
      manualStatusOverride = False, fiveMinuteReminderSent = False,
      startInstant = 600000, duration = 300000\<rparr>"

definition rankedResult :: "uid \<Rightarrow> real \<Rightarrow> result" where
  "rankedResult u p = \<lparr>r_userId = u, r_position = p, r_score = 0\<rparr>"

definition sixResults :: "result list" where
  "sixResults =
     [rankedResult ''a'' 1, rankedResult ''b'' 2, rankedResult ''c'' 3,
      rankedResult ''d'' 4, rankedResult ''e'' 5, rankedResult ''f'' 6]"

definition fixedLine :: "uid \<Rightarrow> real \<Rightarrow> real \<Rightarrow> payout" where
  "fixedLine u p a = \<lparr>po_userId = u, po_position = Fin p, po_amount = Fin a, po_category = None\<rparr>"

definition player :: "real \<Rightarrow> user" where
  \<comment> \<open>a user with a linked Lichess account and the given balance\<close>
  "player b = \<lparr>walletBalance = Fin b, lichessUsername = ''lichess'', createdTournaments = [],
                registeredTournaments = []\<rparr>"

definition exampleStore :: "status \<Rightarrow> store" where
  \<comment> \<open>organizer \<open>org\<close>, participant \<open>a\<close> with a balance of 50, and tournament \<open>T\<close> with the
      single fixed prize 100, in the given status\<close>
  "exampleStore st =
     \<lparr>users = [''org'' \<mapsto> player 0\<lparr>createdTournaments := [''T'']\<rparr>, ''a'' \<mapsto> player 50],
      tournaments = [''T'' \<mapsto> (fixedTournament [Fin 100])\<lparr>tstatus := st, participants := [''a'']\<rparr>],
      transactions = [], notifications = [], timers = [], reminders = []\<rparr>"

definition firstPlace :: "jsnum option \<Rightarrow> distribute_request" where
  \<comment> \<open>the organizer gives the first place to \<open>a\<close>, with or without a custom amount\<close>
  "firstPlace custom =
     \<lparr>dq_user = ''org'', dq_tournamentId = ''T'',
      dq_prizeDistribution = Some [\<lparr>pd_userId = ''a'', pd_position = ''1st'',
                                    pd_customAmount = custom\<rparr>]\<rparr>"

definition quietEnv :: distribute_env where
  \<comment> \<open>no read or write fails and every notification is delivered\<close>
  "quietEnv =
     \<lparr>de_findTournamentFails = False, de_findPayoutsFails = False,
      de_writeFails = (\<lambda>i. False), de_delivery = (\<lambda>i. Delivered), de_commitFails = False\<rparr>"

definition firstPlaceWinner :: "real \<Rightarrow> real \<Rightarrow> winner" where
  "firstPlaceWinner a b =
     \<lparr>w_userId = ''a'', w_position = ''1st'', w_amount = Fin a, w_newWalletBalance = Fin b\<rparr>"

definition submitFirstPlace :: submit_request where
  \<comment> \<open>the organizer submits the result that \<open>a\<close> came first\<close>
  "submitFirstPlace =
     \<lparr>sb_user = ''org'', sb_tournamentId = ''T'', sb_results = Some [rankedResult ''a'' 1]\<rparr>"

definition quietSubmitEnv :: submit_env where
  \<comment> \<open>no read or write fails and every notification is delivered\<close>
  "quietSubmitEnv =
     \<lparr>se_findFails = False, se_write = (\<lambda>i. Written), se_delivery = (\<lambda>i. Delivered),
      se_saveFails = False\<rparr>"

definition fundedStore :: store where
  \<comment> \<open>organizer \<open>org\<close> with a balance of 2000, player \<open>a\<close>, and no tournament yet\<close>
  "fundedStore =
     \<lparr>users = [''org'' \<mapsto> player 2000, ''a'' \<mapsto> player 50],
      tournaments = Map.empty,
      transactions = [], notifications = [], timers = [], reminders = []\<rparr>"

definition walletRequest :: "jsval \<Rightarrow> create_request" where
  \<comment> \<open>a valid request for a fixed-prize tournament funded from the wallet\<close>
  "walletRequest pz =
     \<lparr>rq_user = ''org'', rq_fieldsValid = True, rq_prizeType = ''fixed'', rq_prizes = pz,
      rq_entryFee = JNum 0, rq_fundingMethod = ''wallet''\<rparr>"

definition twoPrizes :: jsval where
  \<comment> \<open>\<open>{ fixed: { amounts: [1000, 500] } }\<close>\<close>
  "twoPrizes = JObj [(''fixed'', JObj [(''amounts'', JArr [JNum 1000, JNum 500])])]"

definition storedAs :: "draft \<Rightarrow> tid \<times> tournament" where
  \<comment> \<open>a successful \<open>Tournament.create\<close>: a draft with fixed or percentage prizes stored
      under the id \<open>T\<close>, starting at minute ten\<close>
  "storedAs d =
     (''T'', \<lparr>title = ''Open'', organizer = dr_organizer d, tstatus = Upcoming, participants = [],
              prizeType = dr_prizeType d,
              tprizes = \<lparr>fixed = d_fixed (dr_prizes d), percentage = d_percentage (dr_prizes d),
                         special = None\<rparr>,
              entryFee = dr_entryFee d, results = [], prizesDistributed = False,
              manualStatusOverride = False, fiveMinuteReminderSent = False,
              startInstant = 600000, duration = 300000\<rparr>)"

definition createEnv :: "(draft \<Rightarrow> (tid \<times> tournament) option) \<Rightarrow> create_env" where
  \<comment> \<open>no write of a user or of the ledger fails; \<open>Tournament.create\<close> behaves as given\<close>
  "createEnv persist =
     \<lparr>ce_userLookupFails = False, ce_userSaveFails = False, ce_tournamentCreate = persist,
      ce_transactionCreateFails = False, ce_userUpdateFails = False,
      ce_reminderStart = Some 600000, ce_now = 0\<rparr>"

definition overriddenStore :: store where
  \<comment> \<open>two upcoming tournaments with start 600000 and duration 300000; \<open>T\<close> is under a
      manual override, \<open>U\<close> is not\<close>
  "overriddenStore =
     \<lparr>users = Map.empty,
      tournaments = [''T'' \<mapsto> (fixedTournament [])\<lparr>manualStatusOverride := True\<rparr>,
                     ''U'' \<mapsto> fixedTournament []],
      transactions = [], notifications = [], timers = [], reminders = []\<rparr>"

definition lateStatusEnv :: status_env where
  \<comment> \<open>a status job after both tournaments have ended\<close>
  "lateStatusEnv = \<lparr>sj_now = 1000000, sj_findFails = False, sj_ids = [''T'', ''U''],
                     sj_saveFails = (\<lambda>i. False)\<rparr>"

definition minuteSixEnv :: reminder_env where
  \<comment> \<open>the reminder job of minute six, with nothing failing\<close>
  "minuteSixEnv = \<lparr>rj_now = 360000, rj_findFails = False, rj_ids = [''T''],
                    rj_delivery = (\<lambda>i. Delivered), rj_updateFails = (\<lambda>i. False)\<rparr>"

definition quietRegisterEnv :: register_env where
  \<comment> \<open>a registration in which nothing fails\<close>
  "quietRegisterEnv = \<lparr>re_findFails = False, re_failure = NothingFails, re_delivery = Delivered\<rparr>"

definition reminderRun :: "operation list" where
  \<comment> \<open>at minute zero the organizer creates tournament \<open>T\<close>, which starts at minute ten; \<open>a\<close>
      registers; the timer set at creation fires at minute five; the reminder job runs
      at minute six\<close>
  "reminderRun =
     [CreateTournament (createEnv (\<lambda>d. Some (storedAs d))) (walletRequest twoPrizes),
      Register quietRegisterEnv \<lparr>rg_user = ''a'', rg_tournamentId = ''T'', rg_confirmed = True\<rparr>,
      ReminderTimer Delivered (300000, ''T''),
      ReminderJob minuteSixEnv]"

section \<open>Properties\<close>

lemmas js_eval =
  or0_def parseFloat_stored_def js_index_def js_gt_def js_sub_def

text \<open>
  C4. The claim: for a fixed-prize tournament the payout calculator writes one line of
  amount \<open>amounts[rank-1]\<close> for each of the first min(len(results), len(amounts)) ranks,
  with no cap at five ranks, and drops the lines whose amount is not positive. The loop
  of the code stops at \<open>i < 5\<close>: with six positive amounts and six ranked results it
  writes the first five lines only, and the sixth rank gets nothing.
\<close>

theorem calculatePrizeDistribution_six_fixed_prizes:
  "calculatePrizeDistribution
     (fixedTournament [Fin 600, Fin 500, Fin 400, Fin 300, Fin 200, Fin 100]) sixResults
   = Inr [fixedLine ''a'' 1 600, fixedLine ''b'' 2 500, fixedLine ''c'' 3 400,
          fixedLine ''d'' 4 300, fixedLine ''e'' 5 200]"
  by (simp add: calculatePrizeDistribution_def fixedTournament_def emptyPrizes_def
      sixResults_def rankedResult_def fixedLine_def js_eval)

lemmas example_defs =
  exampleStore_def player_def fixedTournament_def emptyPrizes_def firstPlace_def quietEnv_def
  firstPlaceWinner_def submitFirstPlace_def quietSubmitEnv_def rankedResult_def fixedLine_def

lemmas notify_eval =
  notifyTournamentWinner_def createNotification_def createNotificationTry_def

lemmas distribute_eval =
  distributeTournamentPrizes_def runTransaction_def existingPrizePayouts_def
  schedulePrizeAmount_def fixedPrizeAmount_def applyCustomAmount_def
  abortTransaction_def is_digit_def digitsValue_def Let_def

subsection \<open>The distribution endpoint\<close>

lemma ledgerOf_eq_iff:
  "ledgerOf s = ledgerOf s' \<longleftrightarrow>
     users s = users s' \<and> tournaments s = tournaments s' \<and> transactions s = transactions s'
     \<and> timers s = timers s' \<and> reminders s = reminders s'"
  by (cases s, cases s') (simp add: ledgerOf_def)

lemma notifyTournamentWinner_ledger:
  "\<exists>s' r. notifyTournamentWinner d u i s = (s', Inr r) \<and> ledgerOf s' = ledgerOf s"
  by (cases d) (simp_all add: notifyTournamentWinner_def createNotification_def
      createNotificationTry_def ledgerOf_def Let_def)

lemma payPrizes_success:
  "payPrizes env i k cps s ws = (s', Inr ws') \<Longrightarrow>
     transactions s' = transactions s @ map (prizeEntry i) cps
     \<and> tournaments s' = tournaments s
     \<and> timers s' = timers s \<and> reminders s' = reminders s
     \<and> (\<forall>u. users s' u = credited u cps (users s u))"
proof (induction cps arbitrary: s ws k)
  case Nil
  then show ?case by (simp add: credited_def creditsOf_def option.map_ident)
next
  case (Cons prize rest)
  from Cons.prems obtain usr where usr: "users s (cp_userId prize) = Some usr"
    by (cases "users s (cp_userId prize)") auto
  from Cons.prems usr have wf: "\<not> de_writeFails env k"
    by (auto split: if_splits)
  define s1 where "s1 = s\<lparr>users := (users s)(cp_userId prize \<mapsto>
        usr\<lparr>walletBalance := js_add (walletBalance usr) (cp_amount prize)\<rparr>),
      transactions := transactions s @ [prizeEntry i prize]\<rparr>"
  obtain s2 r where n: "notifyTournamentWinner (de_delivery env k) (cp_userId prize) i s1 = (s2, Inr r)"
    and l: "ledgerOf s2 = ledgerOf s1"
    using notifyTournamentWinner_ledger by blast
  from Cons.prems usr wf n have rec: "payPrizes env i (k + 1) rest s2
      (ws @ [\<lparr>w_userId = cp_userId prize, w_position = cp_position prize,
               w_amount = cp_amount prize,
               w_newWalletBalance = js_add (walletBalance usr) (cp_amount prize)\<rparr>]) = (s', Inr ws')"
    by (simp add: s1_def prizeEntry_def Let_def)
  note ih = Cons.IH[OF rec]
  from l have eqs: "users s2 = users s1" "transactions s2 = transactions s1"
    "tournaments s2 = tournaments s1" "timers s2 = timers s1" "reminders s2 = reminders s1"
    by (simp_all add: ledgerOf_eq_iff)
  show ?case
    using ih eqs usr
    by (auto simp: s1_def credited_def creditsOf_def)
qed




lemma calculatePrizes_length:
  "calculatePrizes t lines = Inr cps \<Longrightarrow> length cps = length lines"
  by (induction lines arbitrary: cps) (auto simp: Let_def split: sum.splits if_splits)

lemma calculatePrizes_Inl:
  "calculatePrizes t lines = Inl r \<Longrightarrow> r \<noteq> Distributed200 paid ws"
  by (induction lines) (auto simp: Let_def split: sum.splits if_splits)

lemma runTransaction_success:
  "runTransaction env i t cps s = (s1, Distributed200 paid ws) \<Longrightarrow>
     \<exists>s'. payPrizes env i 0 cps s [] = (s', Inr ws)
          \<and> s1 = s'\<lparr>tournaments := (tournaments s')(i \<mapsto> t\<lparr>prizesDistributed := True\<rparr>)\<rparr>
          \<and> \<not> de_commitFails env
          \<and> paid = foldl js_add (Fin 0) (map cp_amount cps)"
  by (auto simp: runTransaction_def split: prod.splits sum.splits if_splits)

lemma distribute_success:
  "distributeTournamentPrizes env req s = (s1, Distributed200 paid ws) \<Longrightarrow>
     \<exists>t lines cps. dq_prizeDistribution req = Some lines \<and> lines \<noteq> []
       \<and> tournaments s (dq_tournamentId req) = Some t
       \<and> users s (organizer t) \<noteq> None \<and> organizer t = dq_user req \<and> tstatus t = Completed
       \<and> existingPrizePayouts s (dq_tournamentId req) = []
       \<and> calculatePrizes t lines = Inr cps
       \<and> runTransaction env (dq_tournamentId req) t cps s = (s1, Distributed200 paid ws)"
  unfolding distributeTournamentPrizes_def
  by (auto simp: Let_def calculatePrizes_Inl split: option.splits sum.splits if_splits)

lemma credited_Some: "x \<noteq> None \<Longrightarrow> credited u cps x \<noteq> None"
  by (simp add: credited_def)

lemma distribute_success_store:
  assumes first: "distributeTournamentPrizes env req s = (s1, Distributed200 paid ws)"
  shows "\<exists>t lines cps. tournaments s (dq_tournamentId req) = Some t
            \<and> dq_prizeDistribution req = Some lines \<and> lines \<noteq> []
            \<and> organizer t = dq_user req \<and> tstatus t = Completed
            \<and> calculatePrizes t lines = Inr cps
            \<and> (\<forall>u. users s1 u = credited u cps (users s u))
            \<and> transactions s1 = transactions s @ map (prizeEntry (dq_tournamentId req)) cps
            \<and> users s1 (organizer t) \<noteq> None
            \<and> tournaments s1 (dq_tournamentId req) = Some (t\<lparr>prizesDistributed := True\<rparr>)
            \<and> existingPrizePayouts s1 (dq_tournamentId req) \<noteq> []"
proof -
  from distribute_success[OF first] obtain t lines cps where
    lines: "dq_prizeDistribution req = Some lines" "lines \<noteq> []"
    and t: "tournaments s (dq_tournamentId req) = Some t"
    and org: "users s (organizer t) \<noteq> None" "organizer t = dq_user req"
    and st: "tstatus t = Completed"
    and cps: "calculatePrizes t lines = Inr cps"
    and run: "runTransaction env (dq_tournamentId req) t cps s = (s1, Distributed200 paid ws)"
    by blast
  from runTransaction_success[OF run] obtain s' where
    pay: "payPrizes env (dq_tournamentId req) 0 cps s [] = (s', Inr ws)"
    and s1: "s1 = s'\<lparr>tournaments := (tournaments s')(dq_tournamentId req \<mapsto> t\<lparr>prizesDistributed := True\<rparr>)\<rparr>"
    by blast
  note ps = payPrizes_success[OF pay]
  have us: "\<forall>u. users s1 u = credited u cps (users s u)"
    using ps s1 by simp
  have ne: "cps \<noteq> []"
    using calculatePrizes_length[OF cps] lines(2) by auto
  have tx: "existingPrizePayouts s1 (dq_tournamentId req) \<noteq> []"
    using ps s1 ne by (cases cps) (auto simp: existingPrizePayouts_def prizeEntry_def)
  have t1: "tournaments s1 (dq_tournamentId req) = Some (t\<lparr>prizesDistributed := True\<rparr>)"
    using s1 by simp
  have o1: "users s1 (organizer t) \<noteq> None"
    using us org(1) by (simp add: credited_Some)
  have xs: "transactions s1 = transactions s @ map (prizeEntry (dq_tournamentId req)) cps"
    using ps s1 by simp
  from t lines cps us xs o1 t1 tx org(2) st show ?thesis by blast
qed



text \<open>
  C2. Calling the distribution endpoint twice with identical arguments on the same
  tournament: when the first call succeeds, it has added each prize of each winner to
  that winner's balance once and written one ledger entry per prize, and the second call
  leaves the store, with every balance, as it was and fails: with the already-distributed
  answer when its two reads go through, with the answer 500 when one of them throws.
\<close>

theorem distributeTournamentPrizes_twice:
  assumes first: "distributeTournamentPrizes env req s = (s1, Distributed200 paid ws)"
  shows "(\<exists>t lines cps. tournaments s (dq_tournamentId req) = Some t
            \<and> dq_prizeDistribution req = Some lines
            \<and> calculatePrizes t lines = Inr cps
            \<and> (\<forall>u. users s1 u = credited u cps (users s u))
            \<and> transactions s1 = transactions s @ map (prizeEntry (dq_tournamentId req)) cps)
         \<and> distributeTournamentPrizes env2 req s1
             = (s1, if de_findTournamentFails env2 \<or> de_findPayoutsFails env2
                    then DistributionError500 else AlreadyDistributed400)"
proof -
  from distribute_success_store[OF first] obtain t lines cps where
    t: "tournaments s (dq_tournamentId req) = Some t"
    and lines: "dq_prizeDistribution req = Some lines" "lines \<noteq> []"
    and org: "organizer t = dq_user req" and st: "tstatus t = Completed"
    and cps: "calculatePrizes t lines = Inr cps"
    and us: "\<forall>u. users s1 u = credited u cps (users s u)"
    and xs: "transactions s1 = transactions s @ map (prizeEntry (dq_tournamentId req)) cps"
    and o1: "users s1 (organizer t) \<noteq> None"
    and t1: "tournaments s1 (dq_tournamentId req) = Some (t\<lparr>prizesDistributed := True\<rparr>)"
    and tx: "existingPrizePayouts s1 (dq_tournamentId req) \<noteq> []"
    by blast
  have second: "distributeTournamentPrizes env2 req s1
      = (s1, if de_findTournamentFails env2 \<or> de_findPayoutsFails env2
             then DistributionError500 else AlreadyDistributed400)"
    unfolding distributeTournamentPrizes_def
    using lines t1 o1 org st tx by auto
  from t lines(1) cps us xs second show ?thesis by blast
qed

theorem distributeTournamentPrizes_twice_witness:
  "snd (distributeTournamentPrizes quietEnv (firstPlace None) (exampleStore Completed))
     = Distributed200 (Fin 100) [firstPlaceWinner 100 150]
   \<and> map_option walletBalance
        (users (fst (distributeTournamentPrizes quietEnv (firstPlace None) (exampleStore Completed))) ''a'')
     = Some (Fin 150)
   \<and> distributeTournamentPrizes quietEnv (firstPlace None)
        (fst (distributeTournamentPrizes quietEnv (firstPlace None) (exampleStore Completed)))
     = (fst (distributeTournamentPrizes quietEnv (firstPlace None) (exampleStore Completed)),
        AlreadyDistributed400)"
proof -
  have r: "snd (distributeTournamentPrizes quietEnv (firstPlace None) (exampleStore Completed))
      = Distributed200 (Fin 100) [firstPlaceWinner 100 150]"
    by (simp add: example_defs distribute_eval notify_eval js_eval)
  have u: "map_option walletBalance
      (users (fst (distributeTournamentPrizes quietEnv (firstPlace None) (exampleStore Completed))) ''a'')
      = Some (Fin 150)"
    by (simp add: example_defs distribute_eval notify_eval js_eval)
  have h: "distributeTournamentPrizes quietEnv (firstPlace None) (exampleStore Completed)
      = (fst (distributeTournamentPrizes quietEnv (firstPlace None) (exampleStore Completed)),
         Distributed200 (Fin 100) [firstPlaceWinner 100 150])"
    using r by (simp add: prod_eq_iff)
  have q: "\<not> de_findTournamentFails quietEnv" "\<not> de_findPayoutsFails quietEnv"
    by (simp_all add: quietEnv_def)
  from distributeTournamentPrizes_twice[OF h, where ?env2.0 = quietEnv] q r u show ?thesis by simp
qed



subsection \<open>The ledger only grows\<close>
































subsection \<open>Creation\<close>

lemma or0_not_NaN: "or0 x \<noteq> NaN" "NaN \<noteq> or0 x"
  by (cases x; simp add: or0_def)+

lemma legacyAmounts_eq:
  "legacyAmounts fx lbls acc
     = acc @ map (\<lambda>lbl. coerceAmount (js_read fx lbl)) (filter (\<lambda>lbl. js_read fx lbl \<noteq> JUndefined) lbls)"
  by (induction lbls arbitrary: acc) simp_all

lemma normalizeFixed_legacy:
  assumes "guardedObject pz ''fixed'' = Some fx" and "\<not> isArray (js_read fx ''amounts'')"
    and "normalizeFixed pz = Some f"
  shows "amounts f = legacyAmounts fx positions []"
proof -
  have a: "(case js_read fx ''amounts'' of JArr xs \<Rightarrow> map coerceAmount xs
            | other \<Rightarrow> legacyAmounts fx positions []) = legacyAmounts fx positions []"
    using assms(2) by (cases "js_read fx ''amounts''") simp_all
  show ?thesis
    using assms(1,3) a
    by (auto simp: normalizeFixed_def Let_def split: jsval.splits option.splits)
qed

text \<open>
  C7. The claim: with legacy per-rank keys only the ranks present are appended to
  \<open>amounts\<close>, in rank order and without padding, and every amount coerces to a
  non-negative number with invalid values becoming 0. The first part holds and the
  coercion is \<open>parseFloat(value) || 0\<close>: the amounts are the coerced values of the keys
  that are present, as many as there are such keys, and none is \<open>NaN\<close>. Nothing makes
  them non-negative.
\<close>

theorem legacy_fixed_amounts:
  assumes "guardedObject pz ''fixed'' = Some fx" and "\<not> isArray (js_read fx ''amounts'')"
    and "normalizeFixed pz = Some f"
  shows "amounts f = map (\<lambda>lbl. or0 (parseFloat (js_read fx lbl)))
                        (filter (\<lambda>lbl. js_read fx lbl \<noteq> JUndefined) positions)
         \<and> length (amounts f) = length (filter (\<lambda>lbl. js_read fx lbl \<noteq> JUndefined) positions)
         \<and> NaN \<notin> set (amounts f)"
proof -
  have "amounts f = map (\<lambda>lbl. coerceAmount (js_read fx lbl))
                        (filter (\<lambda>lbl. js_read fx lbl \<noteq> JUndefined) positions)"
    using normalizeFixed_legacy[OF assms] by (simp add: legacyAmounts_eq)
  then show ?thesis
    by (auto simp: coerceAmount_def or0_not_NaN)
qed

text \<open>
  Instances: \<open>{'1st': 1000}\<close> gives \<open>[1000]\<close> of length 1, and
  \<open>{'1st': '1000', '3rd': 'abc'}\<close> gives \<open>[1000, 0]\<close> (no entry for the absent second rank).
\<close>

theorem legacy_fixed_amounts_witness:
  "map_option amounts (normalizeFixed (JObj [(''fixed'', JObj [(''1st'', JNum 1000)])]))
     = Some [Fin 1000]
   \<and> map_option amounts
        (normalizeFixed (JObj [(''fixed'', JObj [(''1st'', JStr ''1000''), (''3rd'', JStr ''abc'')])]))
     = Some [Fin 1000, Fin 0]"
proof -
  have g: "guardedObject (JObj [(''fixed'', JObj [(''1st'', JNum 1000)])]) ''fixed''
      = Some (JObj [(''1st'', JNum 1000)])"
    by (simp add: guardedObject_def)
  have n: "\<not> isArray (js_read (JObj [(''1st'', JNum 1000)]) ''amounts'')"
    by (simp add: js_read_def)
  have s: "normalizeFixed (JObj [(''fixed'', JObj [(''1st'', JNum 1000)])])
      = Some \<lparr>amounts = legacyAmounts (JObj [(''1st'', JNum 1000)]) positions [], fx_additional = []\<rparr>"
    by (simp add: normalizeFixed_def guardedObject_def js_read_def)
  have one: "map_option amounts (normalizeFixed (JObj [(''fixed'', JObj [(''1st'', JNum 1000)])]))
     = Some [Fin 1000]"
    using legacy_fixed_amounts[OF g n s]
    by (simp add: s js_read_def positions_def or0_def)
  have two: "map_option amounts
        (normalizeFixed (JObj [(''fixed'', JObj [(''1st'', JStr ''1000''), (''3rd'', JStr ''abc'')])]))
     = Some [Fin 1000, Fin 0]"
    by (simp add: normalizeFixed_def guardedObject_def js_read_def positions_def coerceAmount_def
        or0_def parseFloat_str_def splitSign_def is_space_def is_digit_def digitsValue_def
        parseExponent_def pow10_def)
  from one two show ?thesis by simp
qed

lemma scheduleTournamentReminder_keeps:
  "users (scheduleTournamentReminder i st now s) = users s"
  "tournaments (scheduleTournamentReminder i st now s) = tournaments s"
  by (simp_all add: scheduleTournamentReminder_def Let_def split: option.splits)

lemma persistTournament_cases:
  assumes "persistTournament env req d pool s1 = (s', r)"
  shows "(r = CreateError500 \<or> isCreated201 r)
         \<and> map_option walletBalance (users s' u) = map_option walletBalance (users s1 u)
         \<and> (\<forall>i. r = Created201 i \<longrightarrow> tournaments s' i \<noteq> None)
         \<and> (ce_tournamentCreate env = (\<lambda>d. None) \<longrightarrow> \<not> isCreated201 r \<and> tournaments s' = tournaments s1)"
  using assms
  by (auto simp: persistTournament_def Let_def scheduleTournamentReminder_keeps
      split: option.splits prod.splits if_splits)

lemma fundTournament_wallet:
  assumes "rq_fundingMethod req = ''wallet''" and "fundTournament env req pool s = Inr s1"
  shows "\<exists>u. users s (rq_user req) = Some u \<and> \<not> js_lt (walletBalance u) pool
           \<and> s1 = s\<lparr>users := (users s)(rq_user req \<mapsto> u\<lparr>walletBalance := js_sub (walletBalance u) pool\<rparr>)\<rparr>"
  using assms by (auto simp: fundTournament_def split: if_splits option.splits)

lemma fundTournament_early:
  "fundTournament env req pool s = Inl r \<Longrightarrow> r \<noteq> CreateError500 \<and> \<not> isCreated201 r"
  by (auto simp: fundTournament_def split: if_splits option.splits)

text \<open>
  C3. The claim: with wallet funding the debit of the pool and the persistence of the
  tournament are atomic, and a failing persistence restores the balance. The handler
  saves the debit first and persists the tournament afterwards, outside any session and
  with no compensation. What holds: an answer other than 201 or the 500 of the
  persistence step leaves the store unchanged; with 201 or that 500 the organizer's
  balance is the old one less the pool; with 201 the tournament is stored; and when
  \<open>Tournament.create\<close> fails, no tournament is stored while the debit stays.
\<close>

theorem createTournament_wallet_debit_stays:
  assumes w: "rq_fundingMethod req = ''wallet''"
    and run: "createTournament env req s = (s', r)"
  shows "(if r = CreateError500 \<or> isCreated201 r
          then (\<exists>u. users s (rq_user req) = Some u \<and> \<not> js_lt (walletBalance u) (poolOf req)
                 \<and> map_option walletBalance (users s' (rq_user req))
                     = Some (js_sub (walletBalance u) (poolOf req)))
          else s' = s)
         \<and> (\<forall>i. r = Created201 i \<longrightarrow> tournaments s' i \<noteq> None)
         \<and> (ce_tournamentCreate env = (\<lambda>d. None)
              \<longrightarrow> \<not> isCreated201 r \<and> tournaments s' = tournaments s)"
proof (cases "rq_fieldsValid req")
  case False
  with run show ?thesis by (auto simp: createTournament_def)
next
  case True
  show ?thesis
  proof (cases "normalizePrizes (rq_prizeType req) (rq_prizes req)")
    case None
    with True run show ?thesis by (auto simp: createTournament_def)
  next
    case (Some np)
    then have pool: "poolOf req = totalPrizePool (rq_prizeType req) np"
      by (simp add: poolOf_def)
    show ?thesis
    proof (cases "js_gt (or0 (parseFloat (rq_entryFee req))) (poolOf req)")
      case fee: True
      with True Some run pool show ?thesis by (auto simp: createTournament_def Let_def)
    next
      case fee: False
      show ?thesis
      proof (cases "fundTournament env req (poolOf req) s")
        case (Inl e)
        with True Some run pool fee fundTournament_early[OF Inl] show ?thesis
          by (auto simp: createTournament_def Let_def)
      next
        case (Inr s1)
        from fundTournament_wallet[OF w Inr] obtain u where
          u: "users s (rq_user req) = Some u" "\<not> js_lt (walletBalance u) (poolOf req)"
          and s1: "s1 = s\<lparr>users := (users s)(rq_user req \<mapsto>
                      u\<lparr>walletBalance := js_sub (walletBalance u) (poolOf req)\<rparr>)\<rparr>"
          by blast
        from True Some run pool fee Inr have p: "persistTournament env req
            \<lparr>dr_prizeType = rq_prizeType req, dr_prizes = np,
             dr_entryFee = or0 (parseFloat (rq_entryFee req)), dr_fundingMethod = rq_fundingMethod req,
             dr_organizer = rq_user req\<rparr> (poolOf req) s1 = (s', r)"
          by (simp add: createTournament_def Let_def)
        from persistTournament_cases[OF p, of "rq_user req"] u s1 show ?thesis
          by auto
      qed
    qed
  qed
qed

lemmas create_eval =
  createTournament_def fundTournament_def persistTournament_def normalizePrizes_def
  normalizeFixed_def guardedObject_def js_read_def coerceAmount_def totalPrizePool_def
  scheduleTournamentReminder_def Let_def

lemmas create_examples =
  fundedStore_def player_def walletRequest_def twoPrizes_def storedAs_def createEnv_def

text \<open>
  The claim C7 as stated fails: \<open>{'1st': '1000', '2nd': '-5'}\<close> gives the amounts
  \<open>[1000, -5]\<close>, and the creation goes through with the negative amount in the draft
  that is stored.
\<close>

theorem legacy_fixed_amount_negative:
  "normalizeFixed (JObj [(''fixed'', JObj [(''1st'', JStr ''1000''), (''2nd'', JStr ''-5'')])])
     = Some \<lparr>amounts = [Fin 1000, Fin (- 5)], fx_additional = []\<rparr>
   \<and> js_lt (Fin (- 5)) (Fin 0)
   \<and> snd (createTournament (createEnv (\<lambda>d. Some (storedAs d)))
            (walletRequest (JObj [(''fixed'', JObj [(''1st'', JStr ''1000''), (''2nd'', JStr ''-5'')])]))
            fundedStore)
       = Created201 ''T''
   \<and> map_option (\<lambda>t. map_option amounts (fixed (tprizes t)))
        (tournaments (fst (createTournament (createEnv (\<lambda>d. Some (storedAs d)))
            (walletRequest (JObj [(''fixed'', JObj [(''1st'', JStr ''1000''), (''2nd'', JStr ''-5'')])]))
            fundedStore)) ''T'')
       = Some (Some [Fin 1000, Fin (- 5)])"
  by (simp add: create_eval create_examples js_eval positions_def
        parseFloat_str_def splitSign_def is_space_def is_digit_def digitsValue_def
        parseExponent_def pow10_def)

text \<open>
  An instance of C3: pool 1500 from a balance of 2000; the tournament is stored and the
  balance is 500.
\<close>

theorem createTournament_wallet_debit_stays_witness:
  "snd (createTournament (createEnv (\<lambda>d. Some (storedAs d))) (walletRequest twoPrizes) fundedStore)
     = Created201 ''T''
   \<and> map_option walletBalance
       (users (fst (createTournament (createEnv (\<lambda>d. Some (storedAs d))) (walletRequest twoPrizes)
                      fundedStore)) ''org'')
     = Some (Fin 500)
   \<and> tournaments (fst (createTournament (createEnv (\<lambda>d. Some (storedAs d))) (walletRequest twoPrizes)
                      fundedStore)) ''T'' \<noteq> None"
proof -
  have r: "snd (createTournament (createEnv (\<lambda>d. Some (storedAs d))) (walletRequest twoPrizes) fundedStore)
     = Created201 ''T''"
    by (simp add: create_eval create_examples js_eval)
  have w: "rq_fundingMethod (walletRequest twoPrizes) = ''wallet''"
    by (simp add: walletRequest_def)
  have p: "poolOf (walletRequest twoPrizes) = Fin 1500"
    by (simp add: poolOf_def create_eval create_examples js_eval)
  have h: "createTournament (createEnv (\<lambda>d. Some (storedAs d))) (walletRequest twoPrizes) fundedStore
     = (fst (createTournament (createEnv (\<lambda>d. Some (storedAs d))) (walletRequest twoPrizes) fundedStore),
        Created201 ''T'')"
    using r by (simp add: prod_eq_iff)
  from createTournament_wallet_debit_stays[OF w h] r p show ?thesis
    by (simp add: fundedStore_def player_def walletRequest_def js_sub_def)
qed

text \<open>
  The claim as stated fails: when \<open>Tournament.create\<close> throws after the debit, the
  handler answers 500, no tournament exists, and the balance has gone from 2000 to 500.
\<close>

theorem createTournament_debit_without_tournament:
  "map_option walletBalance (users fundedStore ''org'') = Some (Fin 2000)
   \<and> snd (createTournament (createEnv (\<lambda>d. None)) (walletRequest twoPrizes) fundedStore)
       = CreateError500
   \<and> map_option walletBalance
       (users (fst (createTournament (createEnv (\<lambda>d. None)) (walletRequest twoPrizes) fundedStore))
          ''org'')
       = Some (Fin 500)
   \<and> tournaments (fst (createTournament (createEnv (\<lambda>d. None)) (walletRequest twoPrizes) fundedStore))
       = Map.empty"
  by (simp add: create_eval create_examples js_eval)

subsection \<open>The status engine\<close>



lemma findTournaments_mem:
  "(i, t) \<in> set (findTournaments ids P s) \<Longrightarrow> tournaments s i = Some t \<and> P t"
  by (auto simp: findTournaments_def split: option.splits if_splits)

lemma saveStatus_other: "j \<noteq> i \<Longrightarrow> tournaments (saveStatus j st s) i = tournaments s i"
  by (simp add: saveStatus_def split: option.splits)

lemma statusLoop_other:
  "i \<notin> fst ` set xs \<Longrightarrow> tournaments (statusLoop env xs s) i = tournaments s i"
  by (induction xs arbitrary: s) (auto simp: saveStatus_other split: prod.splits)

lemma updateAllLoop_other:
  "i \<notin> fst ` set xs \<Longrightarrow> tournaments (fst (updateAllLoop env xs s n)) i = tournaments s i"
  by (induction xs arbitrary: s n) (auto simp: saveStatus_other split: prod.splits)

lemma refreshLoop_overridden:
  "(\<And>t'. (i, t') \<in> set xs \<Longrightarrow> manualStatusOverride t') \<Longrightarrow>
     tournaments (fst (refreshLoop env xs s ps)) i = tournaments s i"
proof (induction xs arbitrary: s ps)
  case Nil
  show ?case by simp
next
  case (Cons x xs)
  obtain j t' where x: "x = (j, t')" by (cases x)
  have ih: "\<And>s ps. tournaments (fst (refreshLoop env xs s ps)) i = tournaments s i"
    using Cons.IH Cons.prems by simp
  show ?case
  proof (cases "j = i")
    case True
    with x Cons.prems have "manualStatusOverride t'" by simp
    then have "updateStatusBasedOnTime t' (ls_now env) = (t', False)"
      by (simp add: updateStatusBasedOnTime_def computeStatus_def)
    with x ih show ?thesis by simp
  next
    case False
    with x ih show ?thesis
      by (auto simp: saveStatus_other split: prod.splits)
  qed
qed

lemma overridden_not_found:
  assumes "tournaments s i = Some t" and "manualStatusOverride t"
  shows "i \<notin> fst ` set (findTournaments ids needsStatusCheck s)"
proof
  assume "i \<in> fst ` set (findTournaments ids needsStatusCheck s)"
  then obtain t' where "(i, t') \<in> set (findTournaments ids needsStatusCheck s)" by auto
  from findTournaments_mem[OF this] assms show False by (simp add: needsStatusCheck_def)
qed

text \<open>
  C6. For every tournament with \<open>manualStatusOverride = true\<close> the status engine never
  transitions it: \<open>computeStatus\<close> returns the persisted status with \<open>changed = false\<close>,
  the lazy refresh of a read (of the tournament, or of a page that holds it) leaves it as
  it is, and both status reconciliations (the job of every two minutes and
  \<open>updateAllTournamentStatuses\<close>), whose query excludes overridden tournaments, leave it
  as it is.
\<close>

theorem manual_override_untouched:
  assumes "tournaments s i = Some t" and "manualStatusOverride t"
  shows "computeStatus t now = (tstatus t, False)
       \<and> fst (getTournament renv i s) = s
       \<and> tournaments (fst (getTournaments lenv s)) i = Some t
       \<and> tournaments (statusCronJob env s) i = Some t
       \<and> tournaments (fst (updateAllTournamentStatuses env s)) i = Some t"
proof -
  have c: "computeStatus t now = (tstatus t, False)"
    using assms(2) by (simp add: computeStatus_def)
  have g: "fst (getTournament renv i s) = s"
    using assms(1) assms(2) by (simp add: getTournament_def updateStatusBasedOnTime_def computeStatus_def)
  note nf = overridden_not_found[OF assms, of "sj_ids env"]
  have j: "tournaments (statusCronJob env s) i = Some t"
    using statusLoop_other[OF nf] assms(1) by (simp add: statusCronJob_def)
  have a: "tournaments (fst (updateAllTournamentStatuses env s)) i = Some t"
    using updateAllLoop_other[OF nf] assms(1) by (simp add: updateAllTournamentStatuses_def)
  have "\<And>t'. (i, t') \<in> set (findTournaments (ls_ids lenv) (\<lambda>t. True) s) \<Longrightarrow> manualStatusOverride t'"
    using findTournaments_mem assms by fastforce
  from refreshLoop_overridden[OF this] assms(1)
  have l: "tournaments (fst (getTournaments lenv s)) i = Some t"
    by (simp add: getTournaments_def)
  from c g l j a show ?thesis by simp
qed

text \<open>
  An instance: after both tournaments have ended, the status job completes \<open>U\<close> and
  leaves the overridden \<open>T\<close> upcoming; a read of \<open>T\<close> changes nothing.
\<close>

theorem manual_override_untouched_witness:
  "map_option tstatus (tournaments (statusCronJob lateStatusEnv overriddenStore) ''T'') = Some Upcoming
   \<and> map_option tstatus (tournaments (statusCronJob lateStatusEnv overriddenStore) ''U'') = Some Completed
   \<and> fst (getTournament \<lparr>rd_now = 1000000, rd_findFails = False, rd_saveFails = False\<rparr> ''T''
            overriddenStore) = overriddenStore"
proof -
  have t: "tournaments overriddenStore ''T'' = Some ((fixedTournament [])\<lparr>manualStatusOverride := True\<rparr>)"
    by (simp add: overriddenStore_def)
  have o: "manualStatusOverride ((fixedTournament [])\<lparr>manualStatusOverride := True\<rparr>)"
    by simp
  have u: "map_option tstatus (tournaments (statusCronJob lateStatusEnv overriddenStore) ''U'') = Some Completed"
    by (simp add: statusCronJob_def findTournaments_def needsStatusCheck_def overriddenStore_def
        lateStatusEnv_def fixedTournament_def updateStatusBasedOnTime_def computeStatus_def
        saveStatus_def)
  from manual_override_untouched[OF t o, where now = 1000000 and env = lateStatusEnv
      and renv = "\<lparr>rd_now = 1000000, rd_findFails = False, rd_saveFails = False\<rparr>"] u
  show ?thesis
    by (simp add: fixedTournament_def)
qed

subsection \<open>The reminder\<close>

text \<open>
  C9. The claim: the five-minute reminder goes out at most once per tournament, by the
  persisted \<open>fiveMinuteReminderSent\<close> flag together with the one-shot timer. The timer's
  callback neither reads nor sets the flag. In the run below a tournament that starts at
  minute ten is created at minute zero, which sets the timer for minute five, and a
  player registers. The timer sends the reminder and leaves the flag unset; the job of
  minute six still finds the tournament upcoming, with the flag unset and within five
  minutes of its start, and sends the reminder a second time.
\<close>

lemmas reminder_eval =
  registerForTournament_def payEntryFee_def notifyTournamentRegistration_def
  createNotification_def createNotificationTry_def
  fireReminderTimer_def reminderCronJob_def
  notifyTournamentStartingInFiveMinutes_def findTournaments_def isStartingWithinMinutes_def
  setReminderSent_def minuteSixEnv_def quietRegisterEnv_def reminderRun_def

theorem reminder_sent_by_timer_and_job:
  "timers (fold perform (take 2 reminderRun) fundedStore) = [(300000, ''T'')]
   \<and> map_option participants (tournaments (fold perform (take 2 reminderRun) fundedStore) ''T'')
       = Some [''a'']
   \<and> reminders (fold perform (take 3 reminderRun) fundedStore) = [(''T'', [''a''])]
   \<and> map_option fiveMinuteReminderSent
        (tournaments (fold perform (take 3 reminderRun) fundedStore) ''T'') = Some False
   \<and> reminders (fold perform reminderRun fundedStore) = [(''T'', [''a'']), (''T'', [''a''])]"
  by (simp add: reminder_eval create_eval create_examples js_eval)

end
